theory Spec2Isabelle
  imports Complex_Main "HOL-Library.Word" "HOL-Library.Sublist"
begin

section \<open>JavaScript strings\<close>

text \<open>
  A JavaScript string is a sequence of UTF-16 code units.  The literals of the source that
  are plain ASCII are written through \<open>ascii\<close>; the three Japanese literals are spelled
  out code unit by code unit.
\<close>

type_synonym jsstring = "16 word list"

definition ascii :: "string \<Rightarrow> jsstring" where
  "ascii s = map of_char s"

text \<open>
  \<open>String.prototype.trim\<close> strips the WhiteSpace and LineTerminator code points of the
  language standard from both ends.
\<close>

definition js_whitespace :: "16 word \<Rightarrow> bool" where
  "js_whitespace c =
     (c \<in> set [0x0009, 0x000A, 0x000B, 0x000C, 0x000D, 0x0020, 0x00A0, 0x1680,
                0x2028, 0x2029, 0x202F, 0x205F, 0x3000, 0xFEFF]
      \<or> (0x2000 \<le> c \<and> c \<le> 0x200A))"

definition trim :: "jsstring \<Rightarrow> jsstring" where
  "trim s = rev (dropWhile js_whitespace (rev (dropWhile js_whitespace s)))"

text \<open>\<open>String.prototype.includes\<close>: the argument occurs as a contiguous substring.\<close>

definition includes_str :: "jsstring \<Rightarrow> jsstring \<Rightarrow> bool" where
  "includes_str s t = list_ex (\<lambda>i. take (length t) (drop i s) = t) [0..<Suc (length s)]"

text \<open>The placeholder written by \<open>handleTranslate\<close> (App.tsx line 161).\<close>

definition placeholder :: jsstring where
  "placeholder = [0x7FFB, 0x8A33, 0x4E2D, 0x2E, 0x2E, 0x2E]"

text \<open>The fallback text of the chunk listener (App.tsx line 113).\<close>

definition failure_message :: jsstring where
  "failure_message =
     [0x7FFB, 0x8A33, 0x306B, 0x5931, 0x6557, 0x3057, 0x307E, 0x3057, 0x305F, 0x3002,
      0x30D0, 0x30C3, 0x30AF, 0x30A8, 0x30F3, 0x30C9, 0x306E, 0x30ED, 0x30B0, 0x3092,
      0x78BA, 0x8A8D, 0x3057, 0x3066, 0x304F, 0x3060, 0x3055, 0x3044, 0x3002]"

text \<open>The prefix of the error text in the catch branch (App.tsx line 172).\<close>

definition error_prefix :: jsstring where
  "error_prefix = [0x30A8, 0x30E9, 0x30FC, 0x3A, 0x20]"

section \<open>The webview environment of a surface\<close>

text \<open>
  Each window runs in its own webview.  What the handlers do to the outside is recorded
  here: the commands passed to \<open>invoke\<close>, the events passed to \<open>emit\<close>, the pending
  timers of \<open>setTimeout\<close> against a clock in milliseconds, and the \<open>theme\<close> item of
  \<open>localStorage\<close> (\<open>None\<close> when \<open>getItem\<close> returns \<open>null\<close>).  \<open>setTimeout\<close> hands out
  fresh handles; \<open>clearTimeout\<close> removes the timer with the given handle, if any.
\<close>

datatype command =
    Translate (cmd_text: jsstring) (cmd_sourceLang: jsstring)
              (cmd_targetLang: jsstring) (cmd_modelId: jsstring)
  | CancelTranslation
  | UnloadModel

text \<open>The only closure ever given to \<open>setTimeout\<close> (App.tsx lines 145 to 148).\<close>

datatype callback = AutoUnload

record timer =
  timer_id :: nat
  due :: nat
  callback :: callback

record env =
  now :: nat
  nextTimerId :: nat
  timers :: "timer list"
  invocations :: "command list"
  emitted :: "(jsstring \<times> jsstring) list"
  storedTheme :: "jsstring option"

definition invoke :: "command \<Rightarrow> env \<Rightarrow> env" where
  "invoke c e = e\<lparr>invocations := invocations e @ [c]\<rparr>"

definition emit :: "jsstring \<Rightarrow> jsstring \<Rightarrow> env \<Rightarrow> env" where
  "emit topic payload e = e\<lparr>emitted := emitted e @ [(topic, payload)]\<rparr>"

definition setTimeout :: "callback \<Rightarrow> nat \<Rightarrow> env \<Rightarrow> nat \<times> env" where
  "setTimeout f delay e =
     (nextTimerId e,
      e\<lparr>nextTimerId := Suc (nextTimerId e),
        timers := timers e @ [\<lparr>timer_id = nextTimerId e, due = now e + delay, callback = f\<rparr>]\<rparr>)"

definition clearTimeout :: "nat \<Rightarrow> env \<Rightarrow> env" where
  "clearTimeout i e = e\<lparr>timers := filter (\<lambda>t. timer_id t \<noteq> i) (timers e)\<rparr>"

text \<open>Running a timer's closure: \<open>await invoke("unload_model")\<close>.\<close>

fun fire :: "callback \<Rightarrow> env \<Rightarrow> env" where
  "fire AutoUnload e = invoke UnloadModel e"

text \<open>
  Letting \<open>d\<close> milliseconds pass: every timer that has come due is removed and its closure
  run once, in order of due time.
\<close>

definition advance :: "nat \<Rightarrow> env \<Rightarrow> env" where
  "advance d e =
     (let t = now e + d;
          ready = sort_key due (filter (\<lambda>x. due x \<le> t) (timers e));
          waiting = filter (\<lambda>x. \<not> due x \<le> t) (timers e)
      in foldl (\<lambda>e' x. fire (callback x) e') (e\<lparr>now := t, timers := waiting\<rparr>) ready)"

definition fresh_env :: env where
  "fresh_env = \<lparr>now = 0, nextTimerId = 1, timers = [], invocations = [], emitted = [],
                storedTheme = None\<rparr>"

section \<open>State shared by both surfaces\<close>

text \<open>
  Both components keep the language pair, the model identifier, the theme, the menu flag
  and the font size in \<open>useState\<close> cells of the same names.
\<close>

record surface =
  sourceLang :: jsstring
  targetLang :: jsstring
  modelId :: jsstring
  theme :: jsstring
  showModelMenu :: bool
  fontSize :: int
  env :: env

text \<open>The fields of the DOM events that the handlers read.\<close>

record ui_event =
  ctrlKey :: bool

record wheel_event = ui_event +
  deltaY :: real

record key_event = ui_event +
  key :: jsstring
  shiftKey :: bool
  metaKey :: bool

text \<open>The array literal of \<open>cycleMode\<close> and of the storage check.\<close>

definition modes :: "jsstring list" where
  "modes = [ascii ''nano'', ascii ''light'', ascii ''balanced'', ascii ''high'']"

text \<open>\<open>Array.prototype.indexOf\<close>: the first position of the element, or \<open>-1\<close>.\<close>

fun indexOf :: "'a list \<Rightarrow> 'a \<Rightarrow> int" where
  "indexOf [] x = -1"
| "indexOf (y # ys) x =
     (if y = x then 0 else (let i = indexOf ys x in if i < 0 then -1 else i + 1))"

text \<open>
  The body shared by both \<open>cycleMode\<close> functions up to \<open>setModelId\<close>.  The index
  \<open>(currentIndex + 1) % modes.length\<close> is never negative, so the remainder is the
  mathematical one.
\<close>

definition nextMode :: "jsstring \<Rightarrow> jsstring" where
  "nextMode m =
     (let currentIndex = indexOf modes m;
          nextIndex = (currentIndex + 1) mod int (length modes)
      in modes ! nat nextIndex)"

text \<open>The four entries of the model menu (the same ids in both components).\<close>

datatype menu_option = OptNano | OptLight | OptBalanced | OptHigh

fun option_id :: "menu_option \<Rightarrow> jsstring" where
  "option_id OptNano = ascii ''nano''"
| "option_id OptLight = ascii ''light''"
| "option_id OptBalanced = ascii ''balanced''"
| "option_id OptHigh = ascii ''high''"

section \<open>The main window (App.tsx)\<close>

record main_state = surface +
  inputText :: jsstring
  translatedText :: jsstring
  isTranslating :: bool
  modelLoaded :: bool
  unloadTimerRef :: "nat option"
  swapRotation :: int

text \<open>
  What the \<open>useState\<close> initialisers read at start-up: whether \<open>window.localStorage\<close>
  exists, the stored theme, the \<open>prefers-color-scheme\<close> media query, the value of
  \<open>parseInt(getItem("fontSize") || "24")\<close> (\<open>None\<close> for \<open>NaN\<close>), and the stored
  \<open>defaultModel\<close> (read by the popup only).  The write of
  \<open>fontSize\<close> to \<open>localStorage\<close> and the changes to the class list of the document are
  left out: nothing reads them back.
\<close>

record boot =
  hasStorage :: bool
  savedTheme :: "jsstring option"
  prefersDark :: bool
  parsedFontSize :: "int option"
  savedDefaultModel :: "jsstring option"

definition initTheme :: "boot \<Rightarrow> jsstring" where
  "initTheme b =
     (if hasStorage b then
        (case savedTheme b of
           Some saved \<Rightarrow>
             if saved \<noteq> [] then saved
             else if prefersDark b then ascii ''dark'' else ascii ''light''
         | None \<Rightarrow> if prefersDark b then ascii ''dark'' else ascii ''light'')
      else ascii ''dark'')"

definition initFontSize :: "boot \<Rightarrow> int" where
  "initFontSize b =
     (if hasStorage b then (case parsedFontSize b of None \<Rightarrow> 24 | Some saved \<Rightarrow> saved)
      else 24)"

text \<open>The effect on \<open>[theme]\<close> (lines 52 to 61): it runs after mount and after each change,
  stores the theme and emits it.\<close>

definition theme_effect :: "main_state \<Rightarrow> main_state" where
  "theme_effect s =
     s\<lparr>env := emit (ascii ''theme-changed'') (theme s)
                ((env s)\<lparr>storedTheme := Some (theme s)\<rparr>)\<rparr>"

definition setTheme :: "jsstring \<Rightarrow> main_state \<Rightarrow> main_state" where
  "setTheme v s = (if v = theme s then s else theme_effect (s\<lparr>theme := v\<rparr>))"

definition toggleTheme :: "main_state \<Rightarrow> main_state" where
  "toggleTheme s =
     setTheme (if theme s = ascii ''dark'' then ascii ''light'' else ascii ''dark'') s"

definition main_init :: "boot \<Rightarrow> main_state" where
  "main_init b =
     theme_effect
       \<lparr>sourceLang = ascii ''English'', targetLang = ascii ''Japanese'',
        modelId = ascii ''balanced'', theme = initTheme b, showModelMenu = False,
        fontSize = initFontSize b, env = fresh_env\<lparr>storedTheme := savedTheme b\<rparr>,
        inputText = [], translatedText = [], isTranslating = False, modelLoaded = False,
        unloadTimerRef = None, swapRotation = 0\<rparr>"

text \<open>\<open>handleWheel\<close> (lines 81 to 87).\<close>

definition handleWheel :: "wheel_event \<Rightarrow> main_state \<Rightarrow> main_state" where
  "handleWheel e s =
     (if ctrlKey e then
        (let delta = (if deltaY e > 0 then -2 else 2)
         in s\<lparr>fontSize := min (max (fontSize s + delta) 12) 72\<rparr>)
      else s)"

text \<open>\<open>if (unloadTimerRef.current) clearTimeout(unloadTimerRef.current)\<close>: \<open>null\<close> and
  \<open>0\<close> are falsy.\<close>

definition clearUnloadTimer :: "main_state \<Rightarrow> main_state" where
  "clearUnloadTimer s =
     (case unloadTimerRef s of
        None \<Rightarrow> s
      | Some i \<Rightarrow> if i \<noteq> 0 then s\<lparr>env := clearTimeout i (env s)\<rparr> else s)"

text \<open>\<open>resetUnloadTimer\<close> (lines 141 to 149).\<close>

definition resetUnloadTimer :: "main_state \<Rightarrow> main_state" where
  "resetUnloadTimer s =
     (let s1 = clearUnloadTimer s;
          (i, e) = setTimeout AutoUnload 30000 (env s1)
      in s1\<lparr>unloadTimerRef := Some i, env := e\<rparr>)"

text \<open>The listener on \<open>translation-event\<close> (lines 98 to 120), payload \<open>{chunk, is_last}\<close>.\<close>

definition translation_event :: "jsstring \<Rightarrow> bool \<Rightarrow> main_state \<Rightarrow> main_state" where
  "translation_event chunk is_last s =
     (let s1 = (if chunk \<noteq> [] then
                  s\<lparr>translatedText :=
                      (if translatedText s = placeholder then chunk
                       else translatedText s @ chunk)\<rparr>
                else s)
      in if is_last then
           resetUnloadTimer
             (s1\<lparr>isTranslating := False,
                 translatedText :=
                   (if translatedText s1 = placeholder then failure_message
                    else translatedText s1)\<rparr>)
         else s1)"

text \<open>The listener on \<open>debug-log\<close> (lines 123 to 131).\<close>

definition debug_log :: "jsstring \<Rightarrow> main_state \<Rightarrow> main_state" where
  "debug_log payload s =
     (let s1 = (if includes_str payload (ascii ''Model loaded successfully'')
                then s\<lparr>modelLoaded := True\<rparr> else s)
      in if includes_str payload (ascii ''Model unloaded'')
         then s1\<lparr>modelLoaded := False\<rparr> else s1)"

text \<open>
  \<open>handleTranslate\<close> (lines 151 to 177) is an async function.  \<open>handleTranslate\<close> below is
  its synchronous part, up to and including the call of \<open>invoke\<close>; when the promise settles
  the function resumes: \<open>handleTranslate_resolved\<close> after success (it only logs),
  \<open>handleTranslate_rejected\<close> in the catch branch with the stringified error.
\<close>

definition handleTranslate :: "main_state \<Rightarrow> main_state" where
  "handleTranslate s =
     (if trim (inputText s) = [] then s
      else
        (let s1 = clearUnloadTimer s;
             s2 = s1\<lparr>isTranslating := True, modelLoaded := True,
                     translatedText := placeholder\<rparr>
         in s2\<lparr>env := invoke (Translate (inputText s) (sourceLang s) (targetLang s)
                                 (modelId s)) (env s2)\<rparr>))"

definition handleTranslate_resolved :: "main_state \<Rightarrow> main_state" where
  "handleTranslate_resolved s = s"

definition handleTranslate_rejected :: "jsstring \<Rightarrow> main_state \<Rightarrow> main_state" where
  "handleTranslate_rejected err s =
     resetUnloadTimer (s\<lparr>translatedText := error_prefix @ err, isTranslating := False\<rparr>)"

text \<open>
  \<open>handleCancel\<close> (lines 179 to 191), split at its \<open>await\<close> in the same way; neither
  continuation touches the state.
\<close>

definition handleCancel :: "main_state \<Rightarrow> main_state" where
  "handleCancel s =
     (if \<not> isTranslating s then s
      else s\<lparr>env := invoke CancelTranslation (env s)\<rparr>)"

definition handleCancel_resolved :: "main_state \<Rightarrow> main_state" where
  "handleCancel_resolved s = s"

definition handleCancel_rejected :: "jsstring \<Rightarrow> main_state \<Rightarrow> main_state" where
  "handleCancel_rejected err s = s"

text \<open>\<open>handleSwapLanguages\<close> (lines 195 to 200).\<close>

definition handleSwapLanguages :: "main_state \<Rightarrow> main_state" where
  "handleSwapLanguages s =
     s\<lparr>swapRotation := (if swapRotation s = 0 then 180 else 0),
       sourceLang := (if sourceLang s = ascii ''English'' then ascii ''Japanese''
                      else ascii ''English''),
       targetLang := (if targetLang s = ascii ''Japanese'' then ascii ''English''
                      else ascii ''Japanese'')\<rparr>"

text \<open>\<open>cycleMode\<close> (lines 202 to 208).\<close>

definition cycleMode :: "main_state \<Rightarrow> main_state" where
  "cycleMode s = s\<lparr>modelId := nextMode (modelId s)\<rparr>"

text \<open>A click on an entry of the model menu (lines 303 to 306).\<close>

definition selectModel :: "menu_option \<Rightarrow> main_state \<Rightarrow> main_state" where
  "selectModel opt s = s\<lparr>modelId := option_id opt, showModelMenu := False\<rparr>"

text \<open>The \<open>keydown\<close> listener on the window (lines 211 to 228); its middle branch copies
  to the clipboard and changes no state.\<close>

definition handleKeyDown :: "key_event \<Rightarrow> main_state \<Rightarrow> main_state" where
  "handleKeyDown e s =
     (let s1 = (if ctrlKey e \<and> key e = ascii ''Tab'' then handleSwapLanguages s else s)
      in if ctrlKey e \<and> (key e = ascii ''m'' \<or> key e = ascii ''M'') then cycleMode s1
         else s1)"

text \<open>The textarea: \<open>onChange\<close> and \<open>onKeyDown\<close> (lines 385 to 390).\<close>

definition setInputText :: "jsstring \<Rightarrow> main_state \<Rightarrow> main_state" where
  "setInputText v s = s\<lparr>inputText := v\<rparr>"

definition textarea_onKeyDown :: "key_event \<Rightarrow> main_state \<Rightarrow> main_state" where
  "textarea_onKeyDown e s =
     (if key e = ascii ''Enter'' \<and> (ctrlKey e \<or> metaKey e) then handleTranslate s else s)"

text \<open>
  The translate/stop button (lines 448 to 461): \<open>disabled\<close> when idle with blank input,
  otherwise \<open>onClick\<close> is \<open>handleCancel\<close> while translating and \<open>handleTranslate\<close> when not.
\<close>

definition button_onClick :: "main_state \<Rightarrow> main_state" where
  "button_onClick s =
     (if \<not> isTranslating s \<and> trim (inputText s) = [] then s
      else if isTranslating s then handleCancel s
      else handleTranslate s)"

text \<open>
  The \<open>disabled\<close> attribute of the same button in the earlier variant of the component
  (part_006, line 171), from that variant's \<open>isTranslating\<close> and \<open>inputText\<close>.
\<close>

definition earlier_button_disabled :: "bool \<Rightarrow> jsstring \<Rightarrow> bool" where
  "earlier_button_disabled translating input = (translating \<or> trim input = [])"

text \<open>Time passing in the main window: due timers run their closure.\<close>

definition elapse :: "nat \<Rightarrow> main_state \<Rightarrow> main_state" where
  "elapse d s = s\<lparr>env := advance d (env s)\<rparr>"

text \<open>The events of the main window, and a run of such events.\<close>

datatype main_event =
    Wheel wheel_event
  | TranslationEvent jsstring bool
  | DebugLog jsstring
  | KeyDown key_event
  | InputChange jsstring
  | TextareaKeyDown key_event
  | ButtonClick
  | TranslateResolved
  | TranslateRejected jsstring
  | CancelResolved
  | CancelRejected jsstring
  | ThemeClick
  | SwapClick
  | MenuClick menu_option
  | Elapse nat

fun main_step :: "main_state \<Rightarrow> main_event \<Rightarrow> main_state" where
  "main_step s (Wheel e) = handleWheel e s"
| "main_step s (TranslationEvent chunk is_last) = translation_event chunk is_last s"
| "main_step s (DebugLog payload) = debug_log payload s"
| "main_step s (KeyDown e) = handleKeyDown e s"
| "main_step s (InputChange v) = setInputText v s"
| "main_step s (TextareaKeyDown e) = textarea_onKeyDown e s"
| "main_step s ButtonClick = button_onClick s"
| "main_step s TranslateResolved = handleTranslate_resolved s"
| "main_step s (TranslateRejected err) = handleTranslate_rejected err s"
| "main_step s CancelResolved = handleCancel_resolved s"
| "main_step s (CancelRejected err) = handleCancel_rejected err s"
| "main_step s ThemeClick = toggleTheme s"
| "main_step s SwapClick = handleSwapLanguages s"
| "main_step s (MenuClick opt) = selectModel opt s"
| "main_step s (Elapse d) = elapse d s"

definition main_run :: "main_state \<Rightarrow> main_event list \<Rightarrow> main_state" where
  "main_run s es = foldl main_step s es"

section \<open>The popup component (part_002)\<close>

record popup_state = surface +
  text_popup :: jsstring
  translation :: jsstring
  loading :: bool
  error :: "jsstring option"
  logs :: "jsstring list"

text \<open>The initialiser of \<open>modelId\<close> (lines 19 to 27): a stored value counts only when it is
  non-empty and one of the four modes.\<close>

definition initModelId :: "boot \<Rightarrow> jsstring" where
  "initModelId b =
     (if hasStorage b then
        (case savedDefaultModel b of
           Some saved \<Rightarrow> if saved \<noteq> [] \<and> saved \<in> set modes then saved else ascii ''balanced''
         | None \<Rightarrow> ascii ''balanced'')
      else ascii ''balanced'')"

text \<open>
  The first effect (lines 32 to 113) reads the \<open>theme\<close> item of \<open>localStorage\<close> and, when it
  is a non-empty string, makes it the theme (lines 34 to 45); the rest of it binds the
  listeners modelled below.  Its dependencies are \<open>[sourceLang, targetLang, modelId]\<close>:
  it runs after mount and again after every render in which one of the three has changed.
\<close>

definition mount_effect :: "popup_state \<Rightarrow> popup_state" where
  "mount_effect p =
     (case storedTheme (env p) of
        Some saved \<Rightarrow> if saved \<noteq> [] then p\<lparr>theme := saved\<rparr> else p
      | None \<Rightarrow> p)"

definition deps_effect :: "popup_state \<Rightarrow> popup_state \<Rightarrow> popup_state" where
  "deps_effect before after =
     (if sourceLang after \<noteq> sourceLang before \<or> targetLang after \<noteq> targetLang before
         \<or> modelId after \<noteq> modelId before
      then mount_effect after else after)"

text \<open>The state after mount: \<open>theme\<close> starts as \<open>dark\<close> and the first effect has run.\<close>

definition popup_init :: "boot \<Rightarrow> popup_state" where
  "popup_init b =
     mount_effect
       \<lparr>sourceLang = ascii ''English'', targetLang = ascii ''Japanese'',
        modelId = initModelId b, theme = ascii ''dark'',
        showModelMenu = False, fontSize = 16, env = fresh_env\<lparr>storedTheme := savedTheme b\<rparr>,
        text_popup = [], translation = [], loading = False, error = None, logs = []\<rparr>"

text \<open>
  \<open>translateText\<close> (lines 162 to 177), an async function split at its \<open>await\<close>:
  the synchronous part, and the catch branch with the stringified error.
\<close>

definition translateText ::
  "jsstring \<Rightarrow> jsstring \<Rightarrow> jsstring \<Rightarrow> jsstring \<Rightarrow> popup_state \<Rightarrow> popup_state" where
  "translateText sourceText src tgt model p =
     (if trim sourceText = [] then p
      else p\<lparr>env := invoke (Translate sourceText src tgt model) (env p)\<rparr>)"

definition translateText_resolved :: "popup_state \<Rightarrow> popup_state" where
  "translateText_resolved p = p"

definition translateText_rejected :: "jsstring \<Rightarrow> popup_state \<Rightarrow> popup_state" where
  "translateText_rejected err p = p\<lparr>error := Some err, loading := False\<rparr>"

text \<open>The listener on \<open>popup-data\<close> (lines 48 to 57).\<close>

definition popup_data :: "jsstring \<Rightarrow> popup_state \<Rightarrow> popup_state" where
  "popup_data payload p =
     translateText payload (sourceLang p) (targetLang p) (modelId p)
       (p\<lparr>text_popup := payload, translation := [], loading := True, error := None,
          logs := []\<rparr>)"

text \<open>The listener on \<open>translation-event-popup\<close> (lines 60 to 67).\<close>

definition translation_event_popup :: "jsstring \<Rightarrow> bool \<Rightarrow> popup_state \<Rightarrow> popup_state" where
  "translation_event_popup chunk is_last p =
     (let p1 = (if chunk \<noteq> [] then p\<lparr>translation := translation p @ chunk\<rparr> else p)
      in if is_last then p1\<lparr>loading := False\<rparr> else p1)"

text \<open>The listener on \<open>debug-log\<close> (lines 70 to 72); \<open>prev.slice(-4)\<close> is the last four.\<close>

definition debug_log_popup :: "jsstring \<Rightarrow> popup_state \<Rightarrow> popup_state" where
  "debug_log_popup payload p =
     p\<lparr>logs := drop (length (logs p) - 4) (logs p) @ [payload]\<rparr>"

text \<open>The listener on \<open>theme-changed\<close> (lines 75 to 83).\<close>

definition theme_changed :: "jsstring \<Rightarrow> popup_state \<Rightarrow> popup_state" where
  "theme_changed payload p = (let newTheme = payload in p\<lparr>theme := newTheme\<rparr>)"

text \<open>\<open>Math.sign\<close> on the finite numbers a wheel event carries.\<close>

definition js_sign :: "real \<Rightarrow> int" where
  "js_sign x = (if x > 0 then 1 else if x < 0 then -1 else 0)"

text \<open>\<open>handleWheel\<close> of the popup (lines 149 to 157).\<close>

definition popup_handleWheel :: "wheel_event \<Rightarrow> popup_state \<Rightarrow> popup_state" where
  "popup_handleWheel e p =
     (if ctrlKey e then
        (let newSize = fontSize p - js_sign (deltaY e) * 2
         in p\<lparr>fontSize := max 10 (min newSize 48)\<rparr>)
      else p)"

text \<open>\<open>cycleMode\<close> of the popup (lines 179 to 193), followed by the first effect when the
  new \<open>modelId\<close> differs from the old one.\<close>

definition popup_cycleMode :: "popup_state \<Rightarrow> popup_state" where
  "popup_cycleMode p =
     (let nxt = nextMode (modelId p);
          p1 = p\<lparr>modelId := nxt\<rparr>
      in deps_effect p
           (if text_popup p \<noteq> [] then
              translateText (text_popup p) (sourceLang p) (targetLang p) nxt
                (p1\<lparr>translation := [], loading := True\<rparr>)
            else p1))"

text \<open>\<open>handleSwap\<close> (lines 195 to 205), followed by the first effect when a language has
  changed.\<close>

definition handleSwap :: "popup_state \<Rightarrow> popup_state" where
  "handleSwap p =
     (let newSource = targetLang p;
          newTarget = sourceLang p;
          p1 = p\<lparr>sourceLang := newSource, targetLang := newTarget\<rparr>
      in deps_effect p
           (if text_popup p \<noteq> [] then
              translateText (text_popup p) newSource newTarget (modelId p)
                (p1\<lparr>translation := [], loading := True\<rparr>)
            else p1))"

text \<open>The shortcut listener (lines 120 to 141); hiding the window changes no state.\<close>

definition handleShortcut :: "key_event \<Rightarrow> popup_state \<Rightarrow> popup_state" where
  "handleShortcut e p =
     (let p1 = (if ctrlKey e \<and> key e = ascii ''Tab'' then handleSwap p else p);
          p2 = (if ctrlKey e \<and> (key e = ascii ''m'' \<or> key e = ascii ''M'')
                then popup_cycleMode p1 else p1)
      in if ctrlKey e \<and> key e = ascii ''Enter'' then
           (if text_popup p \<noteq> [] then
              translateText (text_popup p) (sourceLang p) (targetLang p) (modelId p)
                (p2\<lparr>translation := [], loading := True\<rparr>)
            else p2)
         else p2)"

text \<open>A click on an entry of the popup's model menu (lines 266 to 275), followed by the
  first effect when the chosen \<open>modelId\<close> differs from the old one.\<close>

definition popup_selectModel :: "menu_option \<Rightarrow> popup_state \<Rightarrow> popup_state" where
  "popup_selectModel opt p =
     (let p1 = p\<lparr>modelId := option_id opt, showModelMenu := False\<rparr>
      in deps_effect p
           (if text_popup p \<noteq> [] then
              translateText (text_popup p) (sourceLang p) (targetLang p) (option_id opt)
                (p1\<lparr>translation := [], loading := True\<rparr>)
            else p1))"

text \<open>Another window of the application stores a theme: the \<open>theme\<close> item of the shared
  \<open>localStorage\<close> changes under the popup.\<close>

definition storage_theme_written :: "jsstring \<Rightarrow> popup_state \<Rightarrow> popup_state" where
  "storage_theme_written v p = p\<lparr>env := (env p)\<lparr>storedTheme := Some v\<rparr>\<rparr>"

text \<open>The events of the popup, and a run of such events.\<close>

datatype popup_event =
    PopupData jsstring
  | PopupTranslationEvent jsstring bool
  | PopupDebugLog jsstring
  | ThemeChanged jsstring
  | PopupWheel wheel_event
  | Shortcut key_event
  | PopupSwapClick
  | PopupMenuClick menu_option
  | PopupTranslateResolved
  | PopupTranslateRejected jsstring
  | StorageThemeWritten jsstring

fun popup_step :: "popup_state \<Rightarrow> popup_event \<Rightarrow> popup_state" where
  "popup_step p (PopupData payload) = popup_data payload p"
| "popup_step p (PopupTranslationEvent chunk is_last) = translation_event_popup chunk is_last p"
| "popup_step p (PopupDebugLog payload) = debug_log_popup payload p"
| "popup_step p (ThemeChanged payload) = theme_changed payload p"
| "popup_step p (PopupWheel e) = popup_handleWheel e p"
| "popup_step p (Shortcut e) = handleShortcut e p"
| "popup_step p PopupSwapClick = handleSwap p"
| "popup_step p (PopupMenuClick opt) = popup_selectModel opt p"
| "popup_step p PopupTranslateResolved = translateText_resolved p"
| "popup_step p (PopupTranslateRejected err) = translateText_rejected err p"
| "popup_step p (StorageThemeWritten v) = storage_theme_written v p"

definition popup_run :: "popup_state \<Rightarrow> popup_event list \<Rightarrow> popup_state" where
  "popup_run p es = foldl popup_step p es"

section \<open>The chunk stream of one session\<close>

text \<open>
  The backend emits, for one session, fragments with \<open>is_last = false\<close> and then one final
  chunk with \<open>is_last = true\<close>; the event bus delivers them in this order.
\<close>

definition session_stream :: "jsstring list \<Rightarrow> jsstring \<Rightarrow> main_event list" where
  "session_stream frags final =
     map (\<lambda>c. TranslationEvent c False) frags @ [TranslationEvent final True]"

definition session_stream_popup :: "jsstring list \<Rightarrow> jsstring \<Rightarrow> popup_event list" where
  "session_stream_popup frags final =
     map (\<lambda>c. PopupTranslationEvent c False) frags @ [PopupTranslationEvent final True]"

text \<open>The \<open>modelId\<close> arguments of the \<open>translate\<close> invocations in a log.\<close>

fun translate_modelIds :: "command list \<Rightarrow> jsstring list" where
  "translate_modelIds [] = []"
| "translate_modelIds (Translate t src tgt m # cs) = m # translate_modelIds cs"
| "translate_modelIds (c # cs) = translate_modelIds cs"

text \<open>The invariant of the model identifier: it is one of the four modes, and so is every
  \<open>modelId\<close> that has been passed to \<open>translate\<close>.\<close>

definition model_inv :: "jsstring \<Rightarrow> env \<Rightarrow> bool" where
  "model_inv m e = (m \<in> set modes \<and> set (translate_modelIds (invocations e)) \<subseteq> set modes)"

text \<open>
  The invariant of the idle-unload timer: handles are positive, at most one timer is
  pending, and a pending timer is the one whose handle \<open>unloadTimerRef\<close> holds.
\<close>

definition timer_inv :: "nat option \<Rightarrow> env \<Rightarrow> bool" where
  "timer_inv ref e =
     (0 < nextTimerId e \<and> length (timers e) \<le> 1
      \<and> list_all (\<lambda>t. ref = Some (timer_id t) \<and> 0 < timer_id t) (timers e))"

text \<open>The events that do not end a session: everything but a final chunk and a failed
  \<open>translate\<close> invocation.\<close>

fun session_open :: "main_event \<Rightarrow> bool" where
  "session_open (TranslationEvent chunk is_last) = (\<not> is_last)"
| "session_open (TranslateRejected err) = False"
| "session_open _ = True"

section \<open>Concrete inputs\<close>

text \<open>A start-up with empty storage on a system that prefers dark.\<close>

definition boot0 :: boot where
  "boot0 = \<lparr>hasStorage = True, savedTheme = None, prefersDark = True, parsedFontSize = None,
            savedDefaultModel = None\<rparr>"

text \<open>The main window right after \<open>Hello\<close> was typed and submitted: the placeholder is
  shown and the session is running.\<close>

definition running0 :: main_state where
  "running0 = handleTranslate (setInputText (ascii ''Hello'') (main_init boot0))"

text \<open>The key event of Ctrl+Enter.\<close>

definition ctrlEnter :: key_event where
  "ctrlEnter = \<lparr>ctrlKey = True, key = ascii ''Enter'', shiftKey = False, metaKey = False\<rparr>"

text \<open>The main window after the fragment \<open>Hello\<close> of the running session has arrived.\<close>

definition streaming0 :: main_state where
  "streaming0 = translation_event (ascii ''Hello'') False running0"

text \<open>The popup after the selection \<open>Hello\<close> has arrived on \<open>popup-data\<close>.\<close>

definition popup_running0 :: popup_state where
  "popup_running0 = popup_data (ascii ''Hello'') (popup_init boot0)"

text \<open>A selection that is a single space.\<close>

definition blank :: jsstring where
  "blank = [0x20]"

text \<open>The key event of Ctrl+M.\<close>

definition ctrlM :: key_event where
  "ctrlM = \<lparr>ctrlKey = True, key = ascii ''m'', shiftKey = False, metaKey = False\<rparr>"

text \<open>The main window after the final chunk \<open>Hi\<close> of that session.\<close>

definition ended0 :: main_state where
  "ended0 = translation_event (ascii ''Hi'') True running0"

section \<open>ASCII literals\<close>

lemma unat_of_char: "unat (of_char c :: 16 word) = of_char c"
proof -
  have "(of_char c :: nat) mod 256 = of_char c" by simp
  then have lt: "(of_char c :: nat) < 256"
    by (metis mod_less_divisor zero_less_numeral)
  have "(of_char c :: 16 word) = of_nat (of_char c)"
    by (simp add: of_nat_of_char)
  then have "unat (of_char c :: 16 word) = (of_char c :: nat) mod 2 ^ 16"
    by (simp add: unat_of_nat)
  moreover from lt have "(of_char c :: nat) < 65536" by linarith
  ultimately show ?thesis by (simp only: mod_less power_numeral) simp
qed

lemma ascii_eq_iff [simp]: "ascii s = ascii t \<longleftrightarrow> s = t"
proof -
  have "inj (of_char :: char \<Rightarrow> 16 word)"
  proof (rule injI)
    fix c d :: char
    assume "(of_char c :: 16 word) = of_char d"
    then have "unat (of_char c :: 16 word) = unat (of_char d :: 16 word)" by simp
    then show "c = d" by (simp add: unat_of_char)
  qed
  then show ?thesis by (simp add: ascii_def inj_map_eq_map)
qed

lemma ascii_Nil_iff [simp]: "ascii s = [] \<longleftrightarrow> s = []" "[] = ascii s \<longleftrightarrow> s = []"
  by (auto simp: ascii_def)

lemma ascii_append: "ascii (s @ t) = ascii s @ ascii t"
  by (simp add: ascii_def)

section \<open>Fields the handlers leave alone\<close>

lemma clearUnloadTimer_fields [simp]:
  "fontSize (clearUnloadTimer s) = fontSize s"
  "modelId (clearUnloadTimer s) = modelId s"
  "theme (clearUnloadTimer s) = theme s"
  "sourceLang (clearUnloadTimer s) = sourceLang s"
  "targetLang (clearUnloadTimer s) = targetLang s"
  "inputText (clearUnloadTimer s) = inputText s"
  "translatedText (clearUnloadTimer s) = translatedText s"
  "isTranslating (clearUnloadTimer s) = isTranslating s"
  "modelLoaded (clearUnloadTimer s) = modelLoaded s"
  "unloadTimerRef (clearUnloadTimer s) = unloadTimerRef s"
  "invocations (env (clearUnloadTimer s)) = invocations (env s)"
  "emitted (env (clearUnloadTimer s)) = emitted (env s)"
  "now (env (clearUnloadTimer s)) = now (env s)"
  "nextTimerId (env (clearUnloadTimer s)) = nextTimerId (env s)"
  by (simp_all add: clearUnloadTimer_def clearTimeout_def split: option.splits)

lemma resetUnloadTimer_fields [simp]:
  "fontSize (resetUnloadTimer s) = fontSize s"
  "modelId (resetUnloadTimer s) = modelId s"
  "theme (resetUnloadTimer s) = theme s"
  "sourceLang (resetUnloadTimer s) = sourceLang s"
  "targetLang (resetUnloadTimer s) = targetLang s"
  "inputText (resetUnloadTimer s) = inputText s"
  "translatedText (resetUnloadTimer s) = translatedText s"
  "isTranslating (resetUnloadTimer s) = isTranslating s"
  "modelLoaded (resetUnloadTimer s) = modelLoaded s"
  "invocations (env (resetUnloadTimer s)) = invocations (env s)"
  "emitted (env (resetUnloadTimer s)) = emitted (env s)"
  "now (env (resetUnloadTimer s)) = now (env s)"
  by (simp_all add: resetUnloadTimer_def setTimeout_def Let_def)

lemma advance_invocations_fold:
  "invocations (foldl (\<lambda>e' x. fire (callback x) e') e xs) = invocations e @ map (\<lambda>x. UnloadModel) xs"
proof (induction xs arbitrary: e)
  case Nil show ?case by simp
next
  case (Cons x xs)
  have "fire (callback x) e = invoke UnloadModel e" by (cases "callback x") simp
  then show ?case using Cons by (simp add: invoke_def)
qed

lemma fontSize_main_step:
  "fontSize (main_step s e) = (case e of Wheel w \<Rightarrow> fontSize (handleWheel w s) | _ \<Rightarrow> fontSize s)"
  by (cases e)
     (simp_all add: translation_event_def debug_log_def handleKeyDown_def
        handleSwapLanguages_def cycleMode_def setInputText_def textarea_onKeyDown_def
        handleTranslate_def button_onClick_def handleCancel_def handleTranslate_resolved_def
        handleTranslate_rejected_def handleCancel_resolved_def handleCancel_rejected_def
        toggleTheme_def setTheme_def theme_effect_def selectModel_def elapse_def Let_def)

lemma handleWheel_range:
  "12 \<le> fontSize s \<Longrightarrow> fontSize s \<le> 72 \<Longrightarrow>
   12 \<le> fontSize (handleWheel w s) \<and> fontSize (handleWheel w s) \<le> 72"
  by (simp add: handleWheel_def Let_def)

lemma main_step_range:
  "12 \<le> fontSize s \<Longrightarrow> fontSize s \<le> 72 \<Longrightarrow>
   12 \<le> fontSize (main_step s e) \<and> fontSize (main_step s e) \<le> 72"
  using handleWheel_range[of s] fontSize_main_step[of s e] by (cases e) auto

lemma main_run_range:
  "12 \<le> fontSize s \<Longrightarrow> fontSize s \<le> 72 \<Longrightarrow>
   12 \<le> fontSize (main_run s es) \<and> fontSize (main_run s es) \<le> 72"
  unfolding main_run_def
proof (induction es arbitrary: s)
  case Nil then show ?case by simp
next
  case (Cons e es)
  from main_step_range[OF Cons.prems] Cons.IH show ?case by simp
qed

lemma mount_effect_fields [simp]:
  "fontSize (mount_effect p) = fontSize p"
  "modelId (mount_effect p) = modelId p"
  "sourceLang (mount_effect p) = sourceLang p"
  "targetLang (mount_effect p) = targetLang p"
  "text_popup (mount_effect p) = text_popup p"
  "translation (mount_effect p) = translation p"
  "loading (mount_effect p) = loading p"
  "error (mount_effect p) = error p"
  "env (mount_effect p) = env p"
  by (simp_all add: mount_effect_def split: option.splits)

lemma deps_effect_fields [simp]:
  "fontSize (deps_effect q p) = fontSize p"
  "modelId (deps_effect q p) = modelId p"
  "sourceLang (deps_effect q p) = sourceLang p"
  "targetLang (deps_effect q p) = targetLang p"
  "text_popup (deps_effect q p) = text_popup p"
  "translation (deps_effect q p) = translation p"
  "loading (deps_effect q p) = loading p"
  "error (deps_effect q p) = error p"
  "env (deps_effect q p) = env p"
  by (simp_all add: deps_effect_def)

lemma translateText_fields [simp]:
  "fontSize (translateText t a b m p) = fontSize p"
  "modelId (translateText t a b m p) = modelId p"
  "theme (translateText t a b m p) = theme p"
  "text_popup (translateText t a b m p) = text_popup p"
  "translation (translateText t a b m p) = translation p"
  "loading (translateText t a b m p) = loading p"
  "error (translateText t a b m p) = error p"
  "timers (env (translateText t a b m p)) = timers (env p)"
  by (simp_all add: translateText_def invoke_def)

lemma fontSize_popup_step:
  "fontSize (popup_step p e) = (case e of PopupWheel w \<Rightarrow> fontSize (popup_handleWheel w p) | _ \<Rightarrow> fontSize p)"
  by (cases e)
     (simp_all add: popup_data_def translation_event_popup_def debug_log_popup_def
        theme_changed_def handleShortcut_def handleSwap_def popup_cycleMode_def
        popup_selectModel_def translateText_resolved_def translateText_rejected_def
        storage_theme_written_def Let_def)

lemma popup_handleWheel_range:
  "10 \<le> fontSize p \<Longrightarrow> fontSize p \<le> 48 \<Longrightarrow>
   10 \<le> fontSize (popup_handleWheel w p) \<and> fontSize (popup_handleWheel w p) \<le> 48"
  by (simp add: popup_handleWheel_def Let_def)

lemma popup_step_range:
  "10 \<le> fontSize p \<Longrightarrow> fontSize p \<le> 48 \<Longrightarrow>
   10 \<le> fontSize (popup_step p e) \<and> fontSize (popup_step p e) \<le> 48"
  using popup_handleWheel_range[of p] fontSize_popup_step[of p e] by (cases e) auto

lemma popup_run_range:
  "10 \<le> fontSize p \<Longrightarrow> fontSize p \<le> 48 \<Longrightarrow>
   10 \<le> fontSize (popup_run p es) \<and> fontSize (popup_run p es) \<le> 48"
  unfolding popup_run_def
proof (induction es arbitrary: p)
  case Nil then show ?case by simp
next
  case (Cons e es)
  from popup_step_range[OF Cons.prems] Cons.IH show ?case by simp
qed

section \<open>Chunk delivery, step by step\<close>

lemma translation_event_nonfinal_text:
  "translatedText (translation_event c False s) =
     (if c = [] then translatedText s
      else if translatedText s = placeholder then c else translatedText s @ c)"
  by (simp add: translation_event_def)

lemma translation_event_nonfinal_flag:
  "isTranslating (translation_event c False s) = isTranslating s"
  by (simp add: translation_event_def)

lemma translation_event_final_text:
  "translatedText (translation_event c True s) =
     (let t = (if c = [] then translatedText s
               else if translatedText s = placeholder then c else translatedText s @ c)
      in if t = placeholder then failure_message else t)"
  by (simp add: translation_event_def Let_def)

lemma translation_event_final_flag:
  "isTranslating (translation_event c True s) = False"
  by (simp add: translation_event_def Let_def)

lemma nonfinal_run_text:
  "translatedText s = t \<Longrightarrow>
   placeholder \<notin> set (map (\<lambda>p. t @ concat p) (prefixes frags)) \<Longrightarrow>
   translatedText (main_run s (map (\<lambda>c. TranslationEvent c False) frags)) = t @ concat frags"
proof (induction frags arbitrary: s t)
  case Nil
  then show ?case by (simp add: main_run_def)
next
  case (Cons c frags)
  from Cons.prems(2) have t: "t \<noteq> placeholder" by auto
  from Cons.prems(2)
  have rest: "placeholder \<notin> set (map (\<lambda>p. (t @ c) @ concat p) (prefixes frags))"
    by (auto simp: image_iff)
  have "translatedText (translation_event c False s) = t @ c"
    using Cons.prems(1) t by (simp add: translation_event_nonfinal_text)
  from Cons.IH[OF this rest] show ?case by (simp add: main_run_def)
qed

lemma placeholder_run_text:
  "translatedText s = placeholder \<Longrightarrow>
   placeholder \<notin> set (map concat (prefixes frags)) \<Longrightarrow>
   translatedText (main_run s (map (\<lambda>c. TranslationEvent c False) frags)) =
     (if concat frags = [] then placeholder else concat frags)"
proof (induction frags arbitrary: s)
  case Nil
  then show ?case by (simp add: main_run_def)
next
  case (Cons c frags)
  show ?case
  proof (cases "c = []")
    case True
    have a: "translatedText (translation_event c False s) = placeholder"
      using Cons.prems(1) True by (simp add: translation_event_nonfinal_text)
    have b: "placeholder \<notin> set (map concat (prefixes frags))"
      using Cons.prems(2) True by (auto simp: image_iff)
    from Cons.IH[OF a b] True show ?thesis by (simp add: main_run_def)
  next
    case False
    have a: "translatedText (translation_event c False s) = c"
      using Cons.prems(1) False by (simp add: translation_event_nonfinal_text)
    have b: "placeholder \<notin> set (map (\<lambda>p. c @ concat p) (prefixes frags))"
      using Cons.prems(2) by (auto simp: image_iff)
    from nonfinal_run_text[OF a b] False show ?thesis by (simp add: main_run_def)
  qed
qed

lemma nonfinal_run_flag:
  "isTranslating (main_run s (map (\<lambda>c. TranslationEvent c False) frags)) = isTranslating s"
  by (induction frags arbitrary: s) (simp_all add: main_run_def translation_event_nonfinal_flag)

lemma main_run_append: "main_run s (xs @ ys) = main_run (main_run s xs) ys"
  by (simp add: main_run_def)

lemma main_run_single: "main_run s [e] = main_step s e"
  by (simp add: main_run_def)

lemma popup_run_append: "popup_run p (xs @ ys) = popup_run (popup_run p xs) ys"
  by (simp add: popup_run_def)

lemma popup_run_single: "popup_run p [e] = popup_step p e"
  by (simp add: popup_run_def)

lemma popup_nonfinal_run_text:
  "translation (popup_run p (map (\<lambda>c. PopupTranslationEvent c False) frags)) =
     translation p @ concat frags"
  by (induction frags arbitrary: p) (simp_all add: popup_run_def translation_event_popup_def)

section \<open>The concrete states, evaluated\<close>

lemma running0_eval:
  "translatedText running0 = placeholder"
  "isTranslating running0"
  "inputText running0 = ascii ''Hello''"
  "invocations (env running0) =
     [Translate (ascii ''Hello'') (ascii ''English'') (ascii ''Japanese'') (ascii ''balanced'')]"
  "timers (env running0) = []"
  "unloadTimerRef running0 = None"
  "now (env running0) = 0"
  "nextTimerId (env running0) = 1"
  "sourceLang running0 = ascii ''English''"
  "targetLang running0 = ascii ''Japanese''"
  "modelId running0 = ascii ''balanced''"
  by (simp_all add: running0_def handleTranslate_def setInputText_def main_init_def boot0_def
        clearUnloadTimer_def theme_effect_def emit_def invoke_def fresh_env_def
        trim_def ascii_def js_whitespace_def Let_def)

lemma trim_Hello: "trim (ascii ''Hello'') \<noteq> []"
  by (simp add: trim_def ascii_def js_whitespace_def)

lemma streaming0_text: "translatedText streaming0 = ascii ''Hello''"
  by (simp add: streaming0_def translation_event_nonfinal_text running0_eval ascii_def)

section \<open>Only a session end clears the translating state\<close>

lemma session_open_keeps_translating:
  "isTranslating s \<Longrightarrow> session_open e \<Longrightarrow> isTranslating (main_step s e)"
  by (cases e)
     (simp_all add: handleWheel_def translation_event_nonfinal_flag debug_log_def
        handleKeyDown_def handleSwapLanguages_def cycleMode_def setInputText_def
        textarea_onKeyDown_def handleTranslate_def button_onClick_def handleCancel_def
        handleTranslate_resolved_def handleCancel_resolved_def handleCancel_rejected_def
        toggleTheme_def setTheme_def theme_effect_def selectModel_def elapse_def Let_def)

lemma session_open_run_translating:
  "isTranslating s \<Longrightarrow> list_all session_open es \<Longrightarrow> isTranslating (main_run s es)"
  unfolding main_run_def
  by (induction es arbitrary: s) (simp_all add: session_open_keeps_translating)

section \<open>Timers and the clock\<close>

lemma fire_invoke: "fire c e = invoke UnloadModel e"
  by (cases c) simp

lemma fold_fire_fields:
  "timers (foldl (\<lambda>e' x. fire (callback x) e') e xs) = timers e"
  "now (foldl (\<lambda>e' x. fire (callback x) e') e xs) = now e"
  "nextTimerId (foldl (\<lambda>e' x. fire (callback x) e') e xs) = nextTimerId e"
  "emitted (foldl (\<lambda>e' x. fire (callback x) e') e xs) = emitted e"
  by (induction xs arbitrary: e) (simp_all add: fire_invoke invoke_def)

lemma advance_fields:
  "timers (advance d e) = filter (\<lambda>x. \<not> due x \<le> now e + d) (timers e)"
  "now (advance d e) = now e + d"
  "nextTimerId (advance d e) = nextTimerId e"
  "emitted (advance d e) = emitted e"
  "invocations (advance d e) =
     invocations e @ map (\<lambda>x. UnloadModel)
       (sort_key due (filter (\<lambda>x. due x \<le> now e + d) (timers e)))"
  by (simp_all add: advance_def Let_def fold_fire_fields advance_invocations_fold)

lemma resetUnloadTimer_timer:
  "unloadTimerRef (resetUnloadTimer s) = Some (nextTimerId (env s))"
  "nextTimerId (env (resetUnloadTimer s)) = Suc (nextTimerId (env s))"
  "timers (env (resetUnloadTimer s)) =
     timers (env (clearUnloadTimer s))
       @ [\<lparr>timer_id = nextTimerId (env s), due = now (env s) + 30000, callback = AutoUnload\<rparr>]"
  by (simp_all add: resetUnloadTimer_def setTimeout_def Let_def)

section \<open>The popup\<close>

lemma popup_running0_eval:
  "loading popup_running0"
  "invocations (env popup_running0) =
     [Translate (ascii ''Hello'') (ascii ''English'') (ascii ''Japanese'') (ascii ''balanced'')]"
  "timers (env popup_running0) = []"
  "error popup_running0 = None"
  by (simp_all add: popup_running0_def popup_data_def translateText_def popup_init_def
        initModelId_def boot0_def invoke_def fresh_env_def trim_Hello)

lemma handleSwap_rereads_theme:
  "sourceLang p \<noteq> targetLang p \<Longrightarrow> storedTheme (env p) = Some v \<Longrightarrow> v \<noteq> [] \<Longrightarrow>
   theme (handleSwap p) = v"
  by (simp add: handleSwap_def deps_effect_def mount_effect_def translateText_def invoke_def
        Let_def)

lemma popup_cycleMode_rereads_theme:
  "nextMode (modelId p) \<noteq> modelId p \<Longrightarrow> storedTheme (env p) = Some v \<Longrightarrow> v \<noteq> [] \<Longrightarrow>
   theme (popup_cycleMode p) = v"
  by (simp add: popup_cycleMode_def deps_effect_def mount_effect_def translateText_def
        invoke_def Let_def)

lemma popup_selectModel_rereads_theme:
  "option_id opt \<noteq> modelId p \<Longrightarrow> storedTheme (env p) = Some v \<Longrightarrow> v \<noteq> [] \<Longrightarrow>
   theme (popup_selectModel opt p) = v"
  by (simp add: popup_selectModel_def deps_effect_def mount_effect_def translateText_def
        invoke_def Let_def)

lemma popup_theme_run:
  "ps \<noteq> [] \<Longrightarrow> theme (popup_run p (map ThemeChanged ps)) = last ps"
proof (induction ps arbitrary: p)
  case Nil then show ?case by simp
next
  case (Cons a ps)
  show ?case
  proof (cases "ps = []")
    case True then show ?thesis by (simp add: popup_run_def theme_changed_def)
  next
    case False
    from Cons.IH[OF False, of "theme_changed a p"] False show ?thesis
      by (simp add: popup_run_def)
  qed
qed

section \<open>The model identifier stays one of the modes\<close>

lemma translate_modelIds_append:
  "translate_modelIds (xs @ ys) = translate_modelIds xs @ translate_modelIds ys"
  by (induction xs rule: translate_modelIds.induct) simp_all

lemma translate_modelIds_unloads:
  "translate_modelIds (map (\<lambda>x. UnloadModel) xs) = []"
  by (induction xs) simp_all

lemma nextMode_cycle:
  "nextMode (ascii ''nano'') = ascii ''light''"
  "nextMode (ascii ''light'') = ascii ''balanced''"
  "nextMode (ascii ''balanced'') = ascii ''high''"
  "nextMode (ascii ''high'') = ascii ''nano''"
  by (simp_all add: nextMode_def modes_def ascii_def Let_def)

lemma nextMode_in_modes: "nextMode m \<in> set modes"
  by (simp add: nextMode_def modes_def Let_def)

lemma option_id_in_modes: "option_id opt \<in> set modes"
  by (cases opt) (simp_all add: modes_def)

lemma initModelId_in_modes: "initModelId b \<in> set modes"
  by (simp add: initModelId_def modes_def split: option.splits)

lemma main_step_model_inv:
  "model_inv (modelId s) (env s) \<Longrightarrow> model_inv (modelId (main_step s e)) (env (main_step s e))"
  by (cases e)
     (auto simp: model_inv_def handleWheel_def translation_event_def debug_log_def
        handleKeyDown_def handleSwapLanguages_def cycleMode_def setInputText_def
        textarea_onKeyDown_def handleTranslate_def button_onClick_def handleCancel_def
        handleTranslate_resolved_def handleTranslate_rejected_def handleCancel_resolved_def
        handleCancel_rejected_def toggleTheme_def setTheme_def theme_effect_def selectModel_def
        elapse_def emit_def invoke_def advance_fields Let_def translate_modelIds_append
        translate_modelIds_unloads nextMode_in_modes option_id_in_modes)

lemma main_run_model_inv:
  "model_inv (modelId s) (env s) \<Longrightarrow> model_inv (modelId (main_run s es)) (env (main_run s es))"
  unfolding main_run_def
  by (induction es arbitrary: s) (simp_all add: main_step_model_inv)

lemma main_init_model_inv: "model_inv (modelId (main_init b)) (env (main_init b))"
  by (simp add: model_inv_def main_init_def theme_effect_def emit_def fresh_env_def modes_def)

lemma translateText_invocations:
  "invocations (env (translateText t a b m p)) =
     (if trim t = [] then invocations (env p) else invocations (env p) @ [Translate t a b m])"
  by (simp add: translateText_def invoke_def)

lemma translateText_model_inv:
  "m \<in> set modes \<Longrightarrow> model_inv (modelId p) (env p) \<Longrightarrow>
   model_inv (modelId (translateText t a b m p)) (env (translateText t a b m p))"
  by (simp add: model_inv_def translateText_invocations translate_modelIds_append)

lemma popup_step_model_inv:
  "model_inv (modelId p) (env p) \<Longrightarrow> model_inv (modelId (popup_step p e)) (env (popup_step p e))"
proof (cases e)
  case (PopupData payload)
  assume i: "model_inv (modelId p) (env p)"
  then have m: "modelId p \<in> set modes" by (simp add: model_inv_def)
  let ?p1 = "p\<lparr>text_popup := payload, translation := [], loading := True, error := None, logs := []\<rparr>"
  from i have "model_inv (modelId ?p1) (env ?p1)" by (simp add: model_inv_def)
  from translateText_model_inv[OF m this] PopupData show ?thesis
    by (simp add: popup_data_def)
next
  case (Shortcut k)
  assume i: "model_inv (modelId p) (env p)"
  then have m: "modelId p \<in> set modes" by (simp add: model_inv_def)
  have sw: "model_inv (modelId (handleSwap p)) (env (handleSwap p))"
    using i m by (simp add: handleSwap_def Let_def translateText_model_inv model_inv_def
        translateText_invocations translate_modelIds_append)
  have cy: "\<And>q. model_inv (modelId q) (env q) \<Longrightarrow>
        model_inv (modelId (popup_cycleMode q)) (env (popup_cycleMode q))"
    by (simp add: popup_cycleMode_def Let_def model_inv_def nextMode_in_modes
        translateText_invocations translate_modelIds_append)
  show ?thesis
    using i m sw cy[OF sw] cy[OF i] Shortcut
    by (simp add: handleShortcut_def Let_def model_inv_def
        translateText_invocations translate_modelIds_append)
qed (simp_all add: model_inv_def translation_event_popup_def debug_log_popup_def
        theme_changed_def popup_handleWheel_def handleSwap_def popup_selectModel_def
        translateText_resolved_def translateText_rejected_def storage_theme_written_def
        Let_def option_id_in_modes
        translateText_invocations translate_modelIds_append)

lemma popup_run_model_inv:
  "model_inv (modelId p) (env p) \<Longrightarrow> model_inv (modelId (popup_run p es)) (env (popup_run p es))"
  unfolding popup_run_def
  by (induction es arbitrary: p) (simp_all add: popup_step_model_inv)

lemma popup_init_model_inv: "model_inv (modelId (popup_init b)) (env (popup_init b))"
  by (simp add: model_inv_def popup_init_def fresh_env_def initModelId_in_modes)

section \<open>The invariant of the idle-unload timer\<close>

lemma clearUnloadTimer_timers_inv:
  "timer_inv (unloadTimerRef s) (env s) \<Longrightarrow> timers (env (clearUnloadTimer s)) = []"
proof -
  assume i: "timer_inv (unloadTimerRef s) (env s)"
  show ?thesis
  proof (cases "timers (env s)")
    case Nil
    then show ?thesis
      by (simp add: clearUnloadTimer_def clearTimeout_def split: option.splits)
  next
    case (Cons t ts)
    with i have "ts = []" and "unloadTimerRef s = Some (timer_id t)" and "0 < timer_id t"
      by (simp_all add: timer_inv_def)
    with Cons show ?thesis
      by (simp add: clearUnloadTimer_def clearTimeout_def)
  qed
qed

lemma clearUnloadTimer_timers_empty:
  "timers (env s) = [] \<Longrightarrow> timers (env (clearUnloadTimer s)) = []"
  by (simp add: clearUnloadTimer_def clearTimeout_def split: option.splits)

lemma resetUnloadTimer_timers_inv:
  "timer_inv (unloadTimerRef s) (env s) \<Longrightarrow>
   timers (env (resetUnloadTimer s)) =
     [\<lparr>timer_id = nextTimerId (env s), due = now (env s) + 30000, callback = AutoUnload\<rparr>]"
  by (simp add: resetUnloadTimer_timer clearUnloadTimer_timers_inv)

lemma resetUnloadTimer_inv:
  assumes "timer_inv (unloadTimerRef s) (env s)"
  shows "timer_inv (unloadTimerRef (resetUnloadTimer s)) (env (resetUnloadTimer s))"
proof -
  from assms have p: "0 < nextTimerId (env s)" by (simp add: timer_inv_def)
  show ?thesis
    unfolding timer_inv_def resetUnloadTimer_timers_inv[OF assms]
    using p by (simp add: resetUnloadTimer_timer)
qed

lemma clearUnloadTimer_inv:
  assumes "timer_inv (unloadTimerRef s) (env s)"
  shows "timer_inv (unloadTimerRef (clearUnloadTimer s)) (env (clearUnloadTimer s))"
proof -
  from assms have p: "0 < nextTimerId (env s)" by (simp add: timer_inv_def)
  show ?thesis
    unfolding timer_inv_def clearUnloadTimer_timers_inv[OF assms]
    using p by simp
qed

lemma advance_inv:
  assumes "timer_inv r e"
  shows "timer_inv r (advance d e)"
proof -
  have "length (filter (\<lambda>x. \<not> due x \<le> now e + d) (timers e)) \<le> length (timers e)"
    by simp
  with assms have "length (filter (\<lambda>x. \<not> due x \<le> now e + d) (timers e)) \<le> 1"
    unfolding timer_inv_def by linarith
  with assms show ?thesis
    by (simp add: timer_inv_def advance_fields list_all_iff)
qed

lemma main_step_timer_inv:
  "timer_inv (unloadTimerRef s) (env s) \<Longrightarrow>
   timer_inv (unloadTimerRef (main_step s e)) (env (main_step s e))"
proof (cases e)
  case (TranslationEvent c l)
  assume i: "timer_inv (unloadTimerRef s) (env s)"
  show ?thesis
  proof (cases l)
    case True
    let ?s1 = "if c \<noteq> [] then s\<lparr>translatedText :=
                      (if translatedText s = placeholder then c else translatedText s @ c)\<rparr> else s"
    let ?s2 = "?s1\<lparr>isTranslating := False, translatedText :=
                   (if translatedText ?s1 = placeholder then failure_message
                    else translatedText ?s1)\<rparr>"
    from i have "timer_inv (unloadTimerRef ?s2) (env ?s2)" by simp
    from resetUnloadTimer_inv[OF this] True TranslationEvent show ?thesis
      by (simp add: translation_event_def Let_def)
  next
    case False
    with i TranslationEvent show ?thesis by (simp add: translation_event_def)
  qed
next
  case (TranslateRejected err)
  assume i: "timer_inv (unloadTimerRef s) (env s)"
  let ?s2 = "s\<lparr>translatedText := error_prefix @ err, isTranslating := False\<rparr>"
  from i have "timer_inv (unloadTimerRef ?s2) (env ?s2)" by simp
  from resetUnloadTimer_inv[OF this] TranslateRejected show ?thesis
    by (simp add: handleTranslate_rejected_def)
next
  case (Elapse d)
  assume i: "timer_inv (unloadTimerRef s) (env s)"
  from advance_inv[OF i] Elapse show ?thesis by (simp add: elapse_def)
next
  case (TextareaKeyDown k)
  assume i: "timer_inv (unloadTimerRef s) (env s)"
  from clearUnloadTimer_inv[OF i] have "timer_inv (unloadTimerRef (handleTranslate s)) (env (handleTranslate s))"
    using i by (simp add: handleTranslate_def Let_def timer_inv_def invoke_def)
  with i TextareaKeyDown show ?thesis by (simp add: textarea_onKeyDown_def)
next
  case ButtonClick
  assume i: "timer_inv (unloadTimerRef s) (env s)"
  from clearUnloadTimer_inv[OF i] have "timer_inv (unloadTimerRef (handleTranslate s)) (env (handleTranslate s))"
    using i by (simp add: handleTranslate_def Let_def timer_inv_def invoke_def)
  with i ButtonClick show ?thesis
    by (simp add: button_onClick_def handleCancel_def timer_inv_def invoke_def)
qed (simp_all add: timer_inv_def handleWheel_def debug_log_def handleKeyDown_def
       handleSwapLanguages_def cycleMode_def setInputText_def handleTranslate_resolved_def
       handleCancel_resolved_def handleCancel_rejected_def toggleTheme_def setTheme_def
       theme_effect_def emit_def selectModel_def Let_def)

lemma main_run_timer_inv:
  "timer_inv (unloadTimerRef s) (env s) \<Longrightarrow>
   timer_inv (unloadTimerRef (main_run s es)) (env (main_run s es))"
  unfolding main_run_def
  by (induction es arbitrary: s) (simp_all add: main_step_timer_inv)

lemma main_init_timer_inv: "timer_inv (unloadTimerRef (main_init b)) (env (main_init b))"
  by (simp add: timer_inv_def main_init_def theme_effect_def emit_def fresh_env_def)

lemma session_open_step:
  "timers (env s) = [] \<Longrightarrow> session_open e \<Longrightarrow>
   timers (env (main_step s e)) = []
   \<and> count_list (invocations (env (main_step s e))) UnloadModel =
       count_list (invocations (env s)) UnloadModel"
  by (cases e)
     (simp_all add: handleWheel_def translation_event_def debug_log_def handleKeyDown_def
        handleSwapLanguages_def cycleMode_def setInputText_def textarea_onKeyDown_def
        handleTranslate_def button_onClick_def handleCancel_def handleTranslate_resolved_def
        handleCancel_resolved_def handleCancel_rejected_def toggleTheme_def setTheme_def
        theme_effect_def emit_def invoke_def selectModel_def elapse_def advance_fields Let_def
        clearUnloadTimer_timers_empty)

lemma session_open_run:
  "timers (env s) = [] \<Longrightarrow> list_all session_open es \<Longrightarrow>
   timers (env (main_run s es)) = []
   \<and> count_list (invocations (env (main_run s es))) UnloadModel =
       count_list (invocations (env s)) UnloadModel"
  unfolding main_run_def
proof (induction es arbitrary: s)
  case Nil
  then show ?case by simp
next
  case (Cons e es)
  from Cons.prems have o: "session_open e" and os: "list_all session_open es" by simp_all
  from session_open_step[OF Cons.prems(1) o] Cons.IH[of "main_step s e"] os
  show ?case by simp
qed

lemma session_end_timer:
  assumes "timer_inv (unloadTimerRef s) (env s)"
    and "s' = translation_event chunk True s \<or> s' = handleTranslate_rejected err s"
  shows "timers (env s') =
           [\<lparr>timer_id = nextTimerId (env s), due = now (env s) + 30000, callback = AutoUnload\<rparr>]"
    and "unloadTimerRef s' = Some (nextTimerId (env s))"
    and "now (env s') = now (env s)"
    and "0 < nextTimerId (env s)"
proof -
  show p: "0 < nextTimerId (env s)" using assms(1) by (simp add: timer_inv_def)
  let ?s1 = "if chunk \<noteq> [] then s\<lparr>translatedText :=
                (if translatedText s = placeholder then chunk else translatedText s @ chunk)\<rparr> else s"
  let ?s2 = "?s1\<lparr>isTranslating := False, translatedText :=
               (if translatedText ?s1 = placeholder then failure_message
                else translatedText ?s1)\<rparr>"
  let ?s3 = "s\<lparr>translatedText := error_prefix @ err, isTranslating := False\<rparr>"
  have e2: "translation_event chunk True s = resetUnloadTimer ?s2"
    by (simp add: translation_event_def Let_def)
  have e3: "handleTranslate_rejected err s = resetUnloadTimer ?s3"
    by (simp add: handleTranslate_rejected_def)
  from assms(1) have i2: "timer_inv (unloadTimerRef ?s2) (env ?s2)"
    and i3: "timer_inv (unloadTimerRef ?s3) (env ?s3)" by simp_all
  have f2: "env ?s2 = env s" and f3: "env ?s3 = env s" by simp_all
  from assms(2) show "timers (env s') =
           [\<lparr>timer_id = nextTimerId (env s), due = now (env s) + 30000, callback = AutoUnload\<rparr>]"
    using resetUnloadTimer_timers_inv[OF i2] resetUnloadTimer_timers_inv[OF i3]
    unfolding e2 e3 f2 f3 by auto
  from assms(2) show "unloadTimerRef s' = Some (nextTimerId (env s))"
    using resetUnloadTimer_timer(1)[of ?s2] resetUnloadTimer_timer(1)[of ?s3]
    unfolding e2 e3 f2 f3 by auto
  from assms(2) show "now (env s') = now (env s)"
    using resetUnloadTimer_fields(12)[of ?s2] resetUnloadTimer_fields(12)[of ?s3]
    unfolding e2 e3 f2 f3 by auto
qed

section \<open>C1: the displayed text is the concatenation of the fragments\<close>

text \<open>
  As stated, C1 fails on a stream without text: when every fragment is empty the final chunk
  finds the placeholder still on display and the listener replaces it by its fallback
  message, which is not the (empty) concatenation of the fragments.
\<close>

theorem empty_stream_shows_failure_message:
  "translatedText running0 = placeholder
   \<and> translatedText (main_run running0 [TranslationEvent [] True]) = failure_message
   \<and> failure_message \<noteq> concat [[]]"
  by (simp add: running0_def main_run_def handleTranslate_def setInputText_def main_init_def
        translation_event_def trim_def ascii_def js_whitespace_def failure_message_def
        placeholder_def Let_def)

text \<open>
  C1 (amended): for every stream of one session (fragments, then one final chunk) that the
  main window's listener processes in order starting from the placeholder, the displayed
  text after the final chunk is the concatenation of all fragments in delivery order when
  that concatenation is not empty, and the listener's fallback message when it is empty;
  this is stated for the streams none of whose running concatenations is the placeholder
  text itself.  The popup, which starts a request with an empty translation, always ends
  with the concatenation of all fragments.
\<close>

theorem streamed_text_is_concatenation:
  assumes "translatedText s = placeholder"
    and "placeholder \<notin> set (map concat (prefixes (frags @ [final])))"
  shows "translatedText (main_run s (session_stream frags final)) =
           (if concat (frags @ [final]) = [] then failure_message else concat (frags @ [final]))
         \<and> translation (popup_run (p\<lparr>translation := []\<rparr>) (session_stream_popup frags final)) =
           concat (frags @ [final])"
proof
  let ?s1 = "main_run s (map (\<lambda>c. TranslationEvent c False) frags)"
  from assms(2) have pre: "placeholder \<notin> set (map concat (prefixes frags))"
    and all: "concat frags @ final \<noteq> placeholder"
    by (auto simp: image_iff)
  have "frags \<in> set (prefixes frags)" by simp
  with pre have nf: "concat frags \<noteq> placeholder"
    by (metis image_eqI set_map)
  have t1: "translatedText ?s1 = (if concat frags = [] then placeholder else concat frags)"
    using placeholder_run_text[OF assms(1) pre] .
  have ne: "placeholder \<noteq> []" by (simp add: placeholder_def)
  show "translatedText (main_run s (session_stream frags final)) =
           (if concat (frags @ [final]) = [] then failure_message else concat (frags @ [final]))"
    unfolding session_stream_def main_run_append main_run_single
    using t1 nf all ne by (auto simp: translation_event_final_text Let_def)
  show "translation (popup_run (p\<lparr>translation := []\<rparr>) (session_stream_popup frags final)) =
           concat (frags @ [final])"
    unfolding session_stream_popup_def popup_run_append popup_run_single
    by (simp add: popup_nonfinal_run_text translation_event_popup_def)
qed

text \<open>The theorem on the stream \<open>Hel\<close>, empty, \<open>lo\<close> and an empty final chunk.\<close>

theorem streamed_text_is_concatenation_witness:
  "translatedText running0 = placeholder
   \<and> placeholder \<notin> set (map concat (prefixes ([ascii ''Hel'', [], ascii ''lo''] @ [[]])))
   \<and> translatedText (main_run running0 (session_stream [ascii ''Hel'', [], ascii ''lo''] [])) =
       ascii ''Hello''
   \<and> translation (popup_run ((popup_init boot0)\<lparr>translation := []\<rparr>)
         (session_stream_popup [ascii ''Hel'', [], ascii ''lo''] [])) = ascii ''Hello''"
proof -
  have h1: "translatedText running0 = placeholder"
    by (simp add: running0_def handleTranslate_def setInputText_def main_init_def
          trim_def ascii_def js_whitespace_def Let_def)
  have h2: "placeholder \<notin> set (map concat (prefixes ([ascii ''Hel'', [], ascii ''lo''] @ [[]])))"
    by (simp add: placeholder_def ascii_def)
  show ?thesis
    using h1 h2 streamed_text_is_concatenation [OF h1 h2, of "popup_init boot0"]
    by (simp add: ascii_def)
qed

section \<open>C2: the idle-unload timer\<close>

text \<open>
  C2: when a session ends, by a chunk with \<open>is_last = true\<close> or by a failed \<open>translate\<close>
  invocation, exactly one timer is pending afterwards: the one just armed, due 30000 ms
  later, kept in \<open>unloadTimerRef\<close>.  Before those 30000 ms have passed nothing is invoked;
  once they have, \<open>unload_model\<close> is invoked exactly once and no timer remains.  Starting a
  new translation before the timer is due clears it, and from then on, for as long as no
  session ends, no \<open>unload_model\<close> is invoked however much time passes.  The assumption on
  the state before the session ends holds in every state the main window can reach.
\<close>

theorem idle_unload_timer:
  assumes "timer_inv (unloadTimerRef s) (env s)"
    and "s' = translation_event chunk True s \<or> s' = handleTranslate_rejected err s"
  shows "timers (env s') =
           [\<lparr>timer_id = nextTimerId (env s), due = now (env s) + 30000, callback = AutoUnload\<rparr>]
    \<and> unloadTimerRef s' = Some (nextTimerId (env s))
    \<and> (d < 30000 \<longrightarrow>
         invocations (env (elapse d s')) = invocations (env s')
         \<and> timers (env (elapse d s')) = timers (env s'))
    \<and> (30000 \<le> d \<longrightarrow>
         invocations (env (elapse d s')) = invocations (env s') @ [UnloadModel]
         \<and> timers (env (elapse d s')) = []
         \<and> invocations (env (elapse d2 (elapse d s'))) = invocations (env s') @ [UnloadModel])
    \<and> (d < 30000 \<and> trim v \<noteq> [] \<and> list_all session_open es \<longrightarrow>
         timers (env (handleTranslate (setInputText v (elapse d s')))) = []
         \<and> count_list (invocations (env
              (main_run (handleTranslate (setInputText v (elapse d s'))) es))) UnloadModel
            = count_list (invocations (env s')) UnloadModel)
    \<and> timer_inv (unloadTimerRef (main_run (main_init b) es0)) (env (main_run (main_init b) es0))"
proof -
  note T = session_end_timer(1)[OF assms] and R = session_end_timer(2)[OF assms]
    and N = session_end_timer(3)[OF assms] and P = session_end_timer(4)[OF assms]
  have early: "invocations (env (elapse d s')) = invocations (env s')
         \<and> timers (env (elapse d s')) = timers (env s')" if "d < 30000"
    using that by (simp add: elapse_def advance_fields T N)
  have late: "invocations (env (elapse d s')) = invocations (env s') @ [UnloadModel]
         \<and> timers (env (elapse d s')) = []
         \<and> invocations (env (elapse d2 (elapse d s'))) = invocations (env s') @ [UnloadModel]"
    if "30000 \<le> d"
    using that by (simp add: elapse_def advance_fields T N)
  have again: "timers (env (handleTranslate (setInputText v (elapse d s')))) = []
         \<and> count_list (invocations (env
              (main_run (handleTranslate (setInputText v (elapse d s'))) es))) UnloadModel
            = count_list (invocations (env s')) UnloadModel"
    if d: "d < 30000" and v: "trim v \<noteq> []" and es: "list_all session_open es"
  proof -
    let ?s2 = "handleTranslate (setInputText v (elapse d s'))"
    have t2: "timers (env ?s2) = []"
      using d v P
      by (simp add: handleTranslate_def setInputText_def elapse_def Let_def invoke_def
            clearUnloadTimer_def clearTimeout_def advance_fields T N R)
    have i2: "invocations (env ?s2) =
        invocations (env s') @ [Translate v (sourceLang s') (targetLang s') (modelId s')]"
      using d v
      by (simp add: handleTranslate_def setInputText_def elapse_def Let_def invoke_def
            advance_fields T N)
    from session_open_run[OF t2 es] t2 i2 show ?thesis by simp
  qed
  from T R early late again main_run_timer_inv[OF main_init_timer_inv]
  show ?thesis by blast
qed

text \<open>The theorem on the session of the running state, ended by the final chunk \<open>Hi\<close>:
  1 ms before the timer is due, at the time it is due, and with a new request in between.\<close>

theorem idle_unload_timer_witness:
  "timer_inv (unloadTimerRef running0) (env running0)
   \<and> timers (env ended0) = [\<lparr>timer_id = 1, due = 30000, callback = AutoUnload\<rparr>]
   \<and> unloadTimerRef ended0 = Some 1
   \<and> invocations (env (elapse 29999 ended0)) = invocations (env running0)
   \<and> invocations (env (elapse 30000 ended0)) = invocations (env running0) @ [UnloadModel]
   \<and> invocations (env (elapse 30000 (elapse 30000 ended0))) =
       invocations (env running0) @ [UnloadModel]
   \<and> trim (ascii ''Hello'') \<noteq> []
   \<and> list_all session_open [TranslationEvent (ascii ''A'') False, Elapse 60000]
   \<and> timers (env (handleTranslate (setInputText (ascii ''Hello'') (elapse 29999 ended0)))) = []
   \<and> count_list (invocations (env
        (main_run (handleTranslate (setInputText (ascii ''Hello'') (elapse 29999 ended0)))
           [TranslationEvent (ascii ''A'') False, Elapse 60000]))) UnloadModel = 0"
proof -
  have i: "timer_inv (unloadTimerRef running0) (env running0)"
    by (simp add: timer_inv_def running0_eval)
  have e: "ended0 = translation_event (ascii ''Hi'') True running0
           \<or> ended0 = handleTranslate_rejected [] running0"
    by (simp add: ended0_def)
  have inv0: "invocations (env ended0) = invocations (env running0)"
    by (simp add: ended0_def translation_event_def Let_def)
  have c0: "count_list (invocations (env running0)) UnloadModel = 0"
    by (simp add: running0_eval)
  from idle_unload_timer [OF i e, of 29999 30000 "ascii ''Hello''"
          "[TranslationEvent (ascii ''A'') False, Elapse 60000]" boot0 "[]"]
       idle_unload_timer [OF i e, of 30000 30000 "ascii ''Hello''" "[]" boot0 "[]"]
  show ?thesis
    using i inv0 c0 by (simp add: running0_eval trim_Hello)
qed

section \<open>C3: a second request while one is running\<close>

text \<open>
  The translate/stop button keeps to one request at a time: while \<open>isTranslating\<close> is true a
  click runs \<open>handleCancel\<close>, which invokes \<open>cancel_translation\<close> and nothing else (in the
  earlier variant of the component the button is disabled while translating).
\<close>

lemma busy_button_cancels:
  "(isTranslating s \<longrightarrow>
     button_onClick s = handleCancel s
     \<and> invocations (env (button_onClick s)) = invocations (env s) @ [CancelTranslation]
     \<and> isTranslating (button_onClick s))
   \<and> earlier_button_disabled True input"
  by (simp add: button_onClick_def handleCancel_def invoke_def earlier_button_disabled_def)

text \<open>
  C3 at the failing input, Ctrl+Enter in the textarea while the session for \<open>Hello\<close> is
  running: the \<open>onKeyDown\<close> handler calls \<open>handleTranslate\<close> without looking at
  \<open>isTranslating\<close>, and \<open>handleTranslate\<close> has no busy check, so \<open>translate\<close> is invoked a
  second time and nothing is rejected.
\<close>

theorem second_submit_invokes_again:
  "isTranslating running0
   \<and> invocations (env (textarea_onKeyDown ctrlEnter running0)) =
       [Translate (ascii ''Hello'') (ascii ''English'') (ascii ''Japanese'') (ascii ''balanced''),
        Translate (ascii ''Hello'') (ascii ''English'') (ascii ''Japanese'') (ascii ''balanced'')]"
  by (simp add: textarea_onKeyDown_def ctrlEnter_def handleTranslate_def running0_eval trim_Hello
        invoke_def Let_def)

section \<open>C4: a failed invocation ends the session\<close>

text \<open>
  As stated, C4 fails for the popup, whose catch branch is one of the two the claim is
  about: the popup has no idle-unload timer, and a failed invocation there arms none.
\<close>

theorem popup_failure_arms_no_timer:
  "loading popup_running0
   \<and> \<not> loading (translateText_rejected (ascii ''boom'') popup_running0)
   \<and> timers (env (translateText_rejected (ascii ''boom'') popup_running0)) = []"
  by (simp add: translateText_rejected_def popup_running0_eval)

text \<open>
  C4 (amended): when the translate invocation of the main window fails, the window leaves
  the translating state, displays the error text (the prefix followed by the error), and
  re-arms the idle-unload timer: a timer due 30000 ms later is pending under the handle kept
  in \<open>unloadTimerRef\<close>, and once those 30000 ms have passed \<open>unload_model\<close> has been
  invoked.  When the translate invocation of the popup fails, the popup leaves \<open>loading\<close>
  and displays the error; it arms no timer and invokes nothing.
\<close>

theorem failure_ends_session:
  "\<not> isTranslating (handleTranslate_rejected err s)
   \<and> translatedText (handleTranslate_rejected err s) = error_prefix @ err
   \<and> unloadTimerRef (handleTranslate_rejected err s) = Some (nextTimerId (env s))
   \<and> \<lparr>timer_id = nextTimerId (env s), due = now (env s) + 30000, callback = AutoUnload\<rparr>
        \<in> set (timers (env (handleTranslate_rejected err s)))
   \<and> UnloadModel \<in> set (drop (length (invocations (env s)))
        (invocations (env (elapse 30000 (handleTranslate_rejected err s)))))
   \<and> \<not> loading (translateText_rejected err p)
   \<and> error (translateText_rejected err p) = Some err
   \<and> env (translateText_rejected err p) = env p"
proof -
  let ?s' = "handleTranslate_rejected err s"
  let ?t = "\<lparr>timer_id = nextTimerId (env s), due = now (env s) + 30000, callback = AutoUnload\<rparr>"
  have m: "?t \<in> set (timers (env ?s'))"
    by (simp add: handleTranslate_rejected_def resetUnloadTimer_timer)
  have n: "now (env ?s') = now (env s)" and i: "invocations (env ?s') = invocations (env s)"
    by (simp_all add: handleTranslate_rejected_def)
  from m have "?t \<in> set (timers (env ?s')) \<and> due ?t \<le> now (env ?s') + 30000"
    by (simp add: n)
  then have u: "UnloadModel \<in> set (drop (length (invocations (env s)))
        (invocations (env (elapse 30000 ?s'))))"
    by (force simp: elapse_def advance_fields i image_iff)
  show ?thesis
    using m u
    by (simp add: handleTranslate_rejected_def resetUnloadTimer_timer translateText_rejected_def)
qed

text \<open>The theorem on the running main window and the running popup, with the error
  \<open>boom\<close>.\<close>

theorem failure_ends_session_witness:
  "isTranslating running0
   \<and> \<not> isTranslating (handleTranslate_rejected (ascii ''boom'') running0)
   \<and> translatedText (handleTranslate_rejected (ascii ''boom'') running0) =
       error_prefix @ ascii ''boom''
   \<and> unloadTimerRef (handleTranslate_rejected (ascii ''boom'') running0) = Some 1
   \<and> \<lparr>timer_id = 1, due = 30000, callback = AutoUnload\<rparr>
        \<in> set (timers (env (handleTranslate_rejected (ascii ''boom'') running0)))
   \<and> loading popup_running0
   \<and> \<not> loading (translateText_rejected (ascii ''boom'') popup_running0)
   \<and> error (translateText_rejected (ascii ''boom'') popup_running0) = Some (ascii ''boom'')"
  using failure_ends_session [of "ascii ''boom''" running0 popup_running0]
  by (simp add: running0_eval popup_running0_eval)

section \<open>C5: cancelling\<close>

text \<open>
  As stated, C5 says that the translating state ends only when the final chunk arrives.
  It also ends when the \<open>translate\<close> invocation fails: after a stop click and a rejected
  invocation the window has left the translating state although no final chunk has arrived.
\<close>

theorem rejection_ends_translating_without_final_chunk:
  "isTranslating (main_run running0 [ButtonClick])
   \<and> \<not> isTranslating (main_run running0 [ButtonClick, TranslateRejected (ascii ''boom'')])"
  by (simp add: main_run_def button_onClick_def handleCancel_def handleTranslate_rejected_def
        running0_eval)

text \<open>
  C5 (amended): while no session is active \<open>handleCancel\<close> changes nothing and invokes
  nothing.  While a session is running it invokes \<open>cancel_translation\<close> and changes nothing
  else, whether the invocation then resolves or rejects.  The translating state ends only
  when the final chunk arrives or the \<open>translate\<close> invocation fails: under every run of
  events that contains neither, the state stays on, and each of the two ends it.
\<close>

theorem cancel_behaviour:
  "(\<not> isTranslating s \<longrightarrow> handleCancel s = s)
   \<and> (isTranslating s \<longrightarrow>
        handleCancel s = s\<lparr>env := (env s)\<lparr>invocations := invocations (env s) @ [CancelTranslation]\<rparr>\<rparr>
        \<and> isTranslating (handleCancel s))
   \<and> handleCancel_resolved s = s
   \<and> handleCancel_rejected err s = s
   \<and> (isTranslating s \<and> list_all session_open es \<longrightarrow> isTranslating (main_run s es))
   \<and> \<not> isTranslating (main_run s (es @ [TranslationEvent chunk True]))
   \<and> \<not> isTranslating (main_run s (es @ [TranslateRejected err]))"
  by (simp add: handleCancel_def invoke_def handleCancel_resolved_def handleCancel_rejected_def
        session_open_run_translating main_run_append main_run_single
        translation_event_final_flag handleTranslate_rejected_def)

text \<open>The theorem on the idle start-up state and on the running state, with a run of a
  stop click, a fragment, the settled cancellation, a wheel step and a minute passing.\<close>

theorem cancel_behaviour_witness:
  "\<not> isTranslating (main_init boot0)
   \<and> handleCancel (main_init boot0) = main_init boot0
   \<and> isTranslating running0
   \<and> invocations (env (handleCancel running0)) =
       [Translate (ascii ''Hello'') (ascii ''English'') (ascii ''Japanese'') (ascii ''balanced''),
        CancelTranslation]
   \<and> list_all session_open
        [ButtonClick, TranslationEvent (ascii ''Hel'') False, CancelResolved,
         Wheel \<lparr>ctrlKey = True, deltaY = 1\<rparr>, Elapse 60000]
   \<and> isTranslating (main_run running0
        [ButtonClick, TranslationEvent (ascii ''Hel'') False, CancelResolved,
         Wheel \<lparr>ctrlKey = True, deltaY = 1\<rparr>, Elapse 60000])
   \<and> \<not> isTranslating (main_run running0
        ([ButtonClick, TranslationEvent (ascii ''Hel'') False, CancelResolved,
          Wheel \<lparr>ctrlKey = True, deltaY = 1\<rparr>, Elapse 60000]
         @ [TranslationEvent [] True]))
   \<and> \<not> isTranslating (main_run running0
        ([ButtonClick, TranslationEvent (ascii ''Hel'') False, CancelResolved,
          Wheel \<lparr>ctrlKey = True, deltaY = 1\<rparr>, Elapse 60000]
         @ [TranslateRejected []]))"
proof -
  have idle: "\<not> isTranslating (main_init boot0)"
    by (simp add: main_init_def theme_effect_def)
  show ?thesis
    using idle
      cancel_behaviour [of "main_init boot0" "[]" "[]" "[]"]
      cancel_behaviour [of running0 "[]"
        "[ButtonClick, TranslationEvent (ascii ''Hel'') False, CancelResolved,
          Wheel \<lparr>ctrlKey = True, deltaY = 1\<rparr>, Elapse 60000]" "[]"]
    by (simp add: running0_eval)
qed

section \<open>C6: an empty fragment leaves the text alone\<close>

text \<open>
  As stated, C6 fails when the empty chunk is final and the placeholder is still on display
  (a cancellation before the first fragment): the listener's fallback replaces the
  placeholder by its failure message, so the displayed text changes.
\<close>

theorem empty_final_chunk_replaces_placeholder:
  "translatedText (translation_event [] True running0) \<noteq> translatedText running0"
  by (simp add: translation_event_final_text running0_eval placeholder_def failure_message_def)

text \<open>
  C6 (amended): a chunk with an empty fragment leaves the main window's displayed text
  unchanged unless it is final and the text is still the placeholder, in which case the text
  becomes the fallback failure message; a final chunk with an empty fragment always ends
  the translating state.  In the popup an empty fragment never changes the translation and
  a final one ends \<open>loading\<close>.
\<close>

theorem empty_chunk_frame:
  "(translatedText s \<noteq> placeholder \<or> \<not> is_last \<longrightarrow>
       translatedText (translation_event [] is_last s) = translatedText s)
   \<and> (translatedText s = placeholder \<longrightarrow>
       translatedText (translation_event [] True s) = failure_message)
   \<and> \<not> isTranslating (translation_event [] True s)
   \<and> translation (translation_event_popup [] is_last p) = translation p
   \<and> \<not> loading (translation_event_popup [] True p)"
  by (cases is_last)
     (simp_all add: translation_event_final_text translation_event_nonfinal_text
        translation_event_final_flag translation_event_popup_def Let_def)

text \<open>The theorem on the state that shows \<open>Hello\<close> and on the state that still shows the
  placeholder.\<close>

theorem empty_chunk_frame_witness:
  "translatedText streaming0 \<noteq> placeholder
   \<and> translatedText (translation_event [] True streaming0) = ascii ''Hello''
   \<and> translatedText running0 = placeholder
   \<and> translatedText (translation_event [] True running0) = failure_message
   \<and> \<not> isTranslating (translation_event [] True streaming0)"
  using empty_chunk_frame [of streaming0 True "popup_init boot0"]
        empty_chunk_frame [of running0 True "popup_init boot0"]
  by (simp add: streaming0_text running0_eval placeholder_def ascii_def)

section \<open>C7: the model identifier is one of the four modes\<close>

text \<open>
  C7: the selected model identifier is always one of \<open>nano\<close>, \<open>light\<close>, \<open>balanced\<close>,
  \<open>high\<close>.  The main window starts with \<open>balanced\<close>; the popup starts with the stored
  value when that is one of the four and with \<open>balanced\<close> otherwise; \<open>cycleMode\<close> maps
  each mode to the next one, the last to the first; and under every run of events, on both
  surfaces, the identifier stays in the set and every \<open>translate\<close> invocation passes a
  member of the set as \<open>modelId\<close>.
\<close>

theorem model_id_in_modes:
  "set modes = {ascii ''nano'', ascii ''light'', ascii ''balanced'', ascii ''high''}
   \<and> modelId (main_init b) = ascii ''balanced''
   \<and> modelId (popup_init b) = initModelId b
   \<and> initModelId b \<in> set modes
   \<and> nextMode (ascii ''nano'') = ascii ''light''
   \<and> nextMode (ascii ''light'') = ascii ''balanced''
   \<and> nextMode (ascii ''balanced'') = ascii ''high''
   \<and> nextMode (ascii ''high'') = ascii ''nano''
   \<and> modelId (cycleMode s) = nextMode (modelId s)
   \<and> modelId (popup_cycleMode p) = nextMode (modelId p)
   \<and> modelId (main_run (main_init b) es) \<in> set modes
   \<and> set (translate_modelIds (invocations (env (main_run (main_init b) es)))) \<subseteq> set modes
   \<and> modelId (popup_run (popup_init b) pes) \<in> set modes
   \<and> set (translate_modelIds (invocations (env (popup_run (popup_init b) pes)))) \<subseteq> set modes"
proof -
  have a: "model_inv (modelId (main_run (main_init b) es)) (env (main_run (main_init b) es))"
    using main_run_model_inv[OF main_init_model_inv] .
  have c: "model_inv (modelId (popup_run (popup_init b) pes)) (env (popup_run (popup_init b) pes))"
    using popup_run_model_inv[OF popup_init_model_inv] .
  have d: "modelId (main_init b) = ascii ''balanced''"
    by (simp add: main_init_def theme_effect_def)
  have e: "modelId (popup_init b) = initModelId b"
    by (simp add: popup_init_def)
  have f: "modelId (cycleMode s) = nextMode (modelId s)"
    by (simp add: cycleMode_def)
  have g: "modelId (popup_cycleMode p) = nextMode (modelId p)"
    by (simp add: popup_cycleMode_def Let_def)
  have h: "set modes = {ascii ''nano'', ascii ''light'', ascii ''balanced'', ascii ''high''}"
    by (simp add: modes_def)
  from a c d e f g h initModelId_in_modes[of b] nextMode_cycle show ?thesis
    unfolding model_inv_def by blast
qed

text \<open>The theorem on a main window that cycles once and submits, and on a popup that
  starts with a stored value outside the set, receives a selection and cycles once.\<close>

theorem model_id_in_modes_witness:
  "modelId (main_run (main_init boot0)
      [KeyDown ctrlM, InputChange (ascii ''Hello''), TextareaKeyDown ctrlEnter]) = ascii ''high''
   \<and> translate_modelIds (invocations (env (main_run (main_init boot0)
      [KeyDown ctrlM, InputChange (ascii ''Hello''), TextareaKeyDown ctrlEnter]))) = [ascii ''high'']
   \<and> ascii ''high'' \<in> set modes
   \<and> translate_modelIds (invocations (env (popup_run
        (popup_init (boot0\<lparr>savedDefaultModel := Some (ascii ''turbo'')\<rparr>))
        [PopupData (ascii ''Hello''), Shortcut ctrlM]))) = [ascii ''balanced'', ascii ''high'']
   \<and> set (translate_modelIds (invocations (env (popup_run
        (popup_init (boot0\<lparr>savedDefaultModel := Some (ascii ''turbo'')\<rparr>))
        [PopupData (ascii ''Hello''), Shortcut ctrlM])))) \<subseteq> set modes"
proof -
  have m: "modelId (main_run (main_init boot0)
      [KeyDown ctrlM, InputChange (ascii ''Hello''), TextareaKeyDown ctrlEnter]) = ascii ''high''"
    by (simp add: main_run_def main_init_def theme_effect_def handleKeyDown_def ctrlM_def
          cycleMode_def nextMode_cycle setInputText_def textarea_onKeyDown_def ctrlEnter_def
          handleTranslate_def trim_Hello Let_def)
  have i: "translate_modelIds (invocations (env (main_run (main_init boot0)
      [KeyDown ctrlM, InputChange (ascii ''Hello''), TextareaKeyDown ctrlEnter]))) = [ascii ''high'']"
    by (simp add: main_run_def main_init_def theme_effect_def handleKeyDown_def ctrlM_def
          cycleMode_def nextMode_cycle setInputText_def textarea_onKeyDown_def ctrlEnter_def
          handleTranslate_def trim_Hello Let_def emit_def invoke_def fresh_env_def)
  have p: "translate_modelIds (invocations (env (popup_run
        (popup_init (boot0\<lparr>savedDefaultModel := Some (ascii ''turbo'')\<rparr>))
        [PopupData (ascii ''Hello''), Shortcut ctrlM]))) = [ascii ''balanced'', ascii ''high'']"
    by (simp add: popup_run_def popup_init_def boot0_def initModelId_def modes_def
          popup_data_def translateText_invocations trim_Hello handleShortcut_def ctrlM_def
          popup_cycleMode_def nextMode_cycle Let_def fresh_env_def)
  from m i p
    model_id_in_modes [of "boot0\<lparr>savedDefaultModel := Some (ascii ''turbo'')\<rparr>" "main_init boot0"
        "popup_init boot0" "[]" "[PopupData (ascii ''Hello''), Shortcut ctrlM]"]
    model_id_in_modes [of boot0 "main_init boot0" "popup_init boot0"
        "[KeyDown ctrlM, InputChange (ascii ''Hello''), TextareaKeyDown ctrlEnter]" "[]"]
  show ?thesis by simp
qed

section \<open>C8: a blank request\<close>

text \<open>
  In the main window a request whose text is blank after trimming invokes nothing and
  changes nothing, on every path that reaches \<open>handleTranslate\<close>; \<open>translateText\<close> of the
  popup has the same guard.
\<close>

lemma blank_request_is_noop:
  "trim (inputText s) = [] \<Longrightarrow> handleTranslate s = s"
  "trim (inputText s) = [] \<Longrightarrow> textarea_onKeyDown e s = s"
  "trim (inputText s) = [] \<Longrightarrow> \<not> isTranslating s \<Longrightarrow> button_onClick s = s"
  "trim sourceText = [] \<Longrightarrow> translateText sourceText src tgt model p = p"
  by (simp_all add: handleTranslate_def textarea_onKeyDown_def button_onClick_def translateText_def)

text \<open>
  C8 at the failing input, the popup receiving a selection that is a single space: the
  callers of \<open>translateText\<close> test \<open>text\<close> for emptiness only and set \<open>loading\<close> before the
  call, so the popup enters the loading state although no invocation is made; the same
  happens on Ctrl+Enter once a final chunk has ended that state, and there the displayed
  translation is cleared too.
\<close>

theorem blank_popup_request_sets_loading:
  "trim blank = []
   \<and> \<not> loading (popup_init boot0)
   \<and> loading (popup_data blank (popup_init boot0))
   \<and> invocations (env (popup_data blank (popup_init boot0))) = []
   \<and> loading (handleShortcut ctrlEnter
        (translation_event_popup (ascii ''Hi'') True (popup_data blank (popup_init boot0))))
   \<and> translation (handleShortcut ctrlEnter
        (translation_event_popup (ascii ''Hi'') True (popup_data blank (popup_init boot0)))) = []
   \<and> invocations (env (handleShortcut ctrlEnter
        (translation_event_popup (ascii ''Hi'') True (popup_data blank (popup_init boot0))))) = []"
proof -
  have b: "trim blank = []" by (simp add: trim_def blank_def js_whitespace_def)
  have ne: "blank \<noteq> []" by (simp add: blank_def)
  show ?thesis
    using b ne
    by (simp add: popup_data_def translateText_def popup_init_def fresh_env_def
          handleShortcut_def ctrlEnter_def translation_event_popup_def ascii_def Let_def)
qed

section \<open>C9: the theme reaches the popup\<close>

text \<open>
  C9: whenever the theme of the main window changes, the new value is emitted on
  \<open>theme-changed\<close> (a toggle always changes it); the popup's listener sets the popup's
  theme to exactly the payload, so after delivery both surfaces hold the same value, and
  after several deliveries the popup holds the last one.
\<close>

theorem theme_change_reaches_popup:
  "(v \<noteq> theme s \<longrightarrow>
      theme (setTheme v s) = v
      \<and> emitted (env (setTheme v s)) = emitted (env s) @ [(ascii ''theme-changed'', v)])
   \<and> theme (toggleTheme s) \<noteq> theme s
   \<and> emitted (env (toggleTheme s)) =
       emitted (env s) @ [(ascii ''theme-changed'', theme (toggleTheme s))]
   \<and> theme (theme_changed payload p) = payload
   \<and> theme (theme_changed (snd (last (emitted (env (toggleTheme s))))) p) = theme (toggleTheme s)
   \<and> (ps \<noteq> [] \<longrightarrow> theme (popup_run p (map ThemeChanged ps)) = last ps)"
proof -
  have d: "ascii ''dark'' \<noteq> ascii ''light''" by (simp add: ascii_def)
  show ?thesis
    using d
    by (auto simp: setTheme_def toggleTheme_def theme_effect_def emit_def theme_changed_def
          popup_theme_run)
qed

text \<open>The theorem on a toggle right after start-up, with both emitted events delivered.\<close>

theorem theme_change_reaches_popup_witness:
  "ascii ''light'' \<noteq> theme (main_init boot0)
   \<and> theme (toggleTheme (main_init boot0)) = ascii ''light''
   \<and> emitted (env (toggleTheme (main_init boot0))) =
       [(ascii ''theme-changed'', ascii ''dark''), (ascii ''theme-changed'', ascii ''light'')]
   \<and> theme (popup_run (popup_init boot0)
        (map ThemeChanged (map snd (emitted (env (toggleTheme (main_init boot0))))))) =
      theme (toggleTheme (main_init boot0))"
proof -
  have t0: "theme (main_init boot0) = ascii ''dark''"
    and e0: "emitted (env (main_init boot0)) = [(ascii ''theme-changed'', ascii ''dark'')]"
    by (simp_all add: main_init_def theme_effect_def emit_def initTheme_def boot0_def
          fresh_env_def)
  have d: "ascii ''light'' \<noteq> ascii ''dark''" by (simp add: ascii_def)
  from theme_change_reaches_popup
         [of "ascii ''light''" "main_init boot0" "[]" "popup_init boot0"
             "[ascii ''dark'', ascii ''light'']"]
  show ?thesis using t0 e0 d by (simp add: toggleTheme_def setTheme_def)
qed

section \<open>C10: the font size stays within its bounds\<close>

text \<open>
  As stated, C10 says that every Ctrl+wheel step changes the font size by exactly 2 before
  clamping.  In the popup the step is \<open>Math.sign(deltaY) * 2\<close>, which is 0 for a wheel event
  with \<open>deltaY = 0\<close> (a horizontal scroll): such an event leaves the popup as it is.
\<close>

theorem popup_wheel_zero_delta:
  "popup_handleWheel \<lparr>ctrlKey = True, deltaY = 0\<rparr> (popup_init boot0) = popup_init boot0"
  by (simp add: popup_handleWheel_def js_sign_def popup_init_def mount_effect_def boot0_def
        fresh_env_def Let_def)

text \<open>
  C10 (amended): under every run of events the font size of the main window stays within
  12 and 72 and that of the popup within 10 and 48, once it is there; after any Ctrl+wheel
  step it is within the bounds whatever it was before.  In the main window a Ctrl+wheel step
  sets the size to the old size minus 2 when \<open>deltaY > 0\<close> and plus 2 otherwise, clamped to
  12 and 72.  In the popup it sets it to the old size minus 2 when \<open>deltaY > 0\<close>, plus 2 when
  \<open>deltaY < 0\<close> and plus 0 when \<open>deltaY = 0\<close>, clamped to 10 and 48.  A wheel event without
  Ctrl changes nothing on either surface.
\<close>

theorem font_size_bounds:
  "(12 \<le> fontSize s \<and> fontSize s \<le> 72 \<longrightarrow>
      12 \<le> fontSize (main_run s es) \<and> fontSize (main_run s es) \<le> 72)
   \<and> (10 \<le> fontSize p \<and> fontSize p \<le> 48 \<longrightarrow>
      10 \<le> fontSize (popup_run p pes) \<and> fontSize (popup_run p pes) \<le> 48)
   \<and> (ctrlKey w \<longrightarrow>
        12 \<le> fontSize (handleWheel w s) \<and> fontSize (handleWheel w s) \<le> 72
        \<and> fontSize (handleWheel w s) =
            max 12 (min 72 (fontSize s + (if deltaY w > 0 then - 2 else 2))))
   \<and> (ctrlKey w \<longrightarrow>
        10 \<le> fontSize (popup_handleWheel w p) \<and> fontSize (popup_handleWheel w p) \<le> 48
        \<and> fontSize (popup_handleWheel w p) =
            max 10 (min 48 (fontSize p
              + (if deltaY w > 0 then - 2 else if deltaY w < 0 then 2 else 0))))
   \<and> (\<not> ctrlKey w \<longrightarrow> handleWheel w s = s \<and> popup_handleWheel w p = p)"
proof (intro conjI impI)
  assume "12 \<le> fontSize s \<and> fontSize s \<le> 72"
  then show "12 \<le> fontSize (main_run s es)" "fontSize (main_run s es) \<le> 72"
    using main_run_range[of s es] by simp_all
next
  assume "10 \<le> fontSize p \<and> fontSize p \<le> 48"
  then show "10 \<le> fontSize (popup_run p pes)" "fontSize (popup_run p pes) \<le> 48"
    using popup_run_range[of p pes] by simp_all
next
  assume c: "ctrlKey w"
  show "12 \<le> fontSize (handleWheel w s)" "fontSize (handleWheel w s) \<le> 72"
    using c by (simp_all add: handleWheel_def Let_def)
  show "fontSize (handleWheel w s) =
          max 12 (min 72 (fontSize s + (if deltaY w > 0 then - 2 else 2)))"
    using c by (simp add: handleWheel_def Let_def)
  show "10 \<le> fontSize (popup_handleWheel w p)" "fontSize (popup_handleWheel w p) \<le> 48"
    using c by (simp_all add: popup_handleWheel_def Let_def)
  show "fontSize (popup_handleWheel w p) =
          max 10 (min 48 (fontSize p
            + (if deltaY w > 0 then - 2 else if deltaY w < 0 then 2 else 0)))"
    using c by (auto simp add: popup_handleWheel_def js_sign_def Let_def min_def max_def)
next
  assume "\<not> ctrlKey w"
  then show "handleWheel w s = s" "popup_handleWheel w p = p"
    by (simp_all add: handleWheel_def popup_handleWheel_def)
qed

text \<open>The theorem at start-up with empty storage: a Ctrl+wheel step upwards, one downwards,
  one with \<open>deltaY = 0\<close>, and a wheel step without Ctrl.\<close>

theorem font_size_bounds_witness:
  "12 \<le> fontSize (main_init boot0) \<and> fontSize (main_init boot0) \<le> 72
   \<and> 10 \<le> fontSize (popup_init boot0) \<and> fontSize (popup_init boot0) \<le> 48
   \<and> fontSize (main_run (main_init boot0) [Wheel \<lparr>ctrlKey = True, deltaY = - 100\<rparr>]) \<le> 72
   \<and> 10 \<le> fontSize (popup_run (popup_init boot0) [PopupWheel \<lparr>ctrlKey = True, deltaY = 100\<rparr>])
   \<and> ctrlKey \<lparr>ctrlKey = True, deltaY = - 100\<rparr>
   \<and> fontSize (handleWheel \<lparr>ctrlKey = True, deltaY = - 100\<rparr> (main_init boot0)) = 26
   \<and> fontSize (handleWheel \<lparr>ctrlKey = True, deltaY = 100\<rparr> (main_init boot0)) = 22
   \<and> fontSize (handleWheel \<lparr>ctrlKey = True, deltaY = 0\<rparr> (main_init boot0)) = 26
   \<and> fontSize (popup_handleWheel \<lparr>ctrlKey = True, deltaY = - 100\<rparr> (popup_init boot0)) = 18
   \<and> fontSize (popup_handleWheel \<lparr>ctrlKey = True, deltaY = 100\<rparr> (popup_init boot0)) = 14
   \<and> fontSize (popup_handleWheel \<lparr>ctrlKey = True, deltaY = 0\<rparr> (popup_init boot0)) = 16
   \<and> \<not> ctrlKey \<lparr>ctrlKey = False, deltaY = 100\<rparr>
   \<and> handleWheel \<lparr>ctrlKey = False, deltaY = 100\<rparr> (main_init boot0) = main_init boot0
   \<and> popup_handleWheel \<lparr>ctrlKey = False, deltaY = 100\<rparr> (popup_init boot0) = popup_init boot0"
proof -
  have m: "fontSize (main_init boot0) = 24"
    by (simp add: main_init_def theme_effect_def initFontSize_def boot0_def)
  have q: "fontSize (popup_init boot0) = 16"
    by (simp add: popup_init_def)
  from font_size_bounds [of "main_init boot0" "[Wheel \<lparr>ctrlKey = True, deltaY = - 100\<rparr>]"
          "popup_init boot0" "[PopupWheel \<lparr>ctrlKey = True, deltaY = 100\<rparr>]"
          "\<lparr>ctrlKey = True, deltaY = - 100\<rparr>"]
       font_size_bounds [of "main_init boot0" "[]" "popup_init boot0" "[]"
          "\<lparr>ctrlKey = True, deltaY = 100\<rparr>"]
       font_size_bounds [of "main_init boot0" "[]" "popup_init boot0" "[]"
          "\<lparr>ctrlKey = True, deltaY = 0\<rparr>"]
       font_size_bounds [of "main_init boot0" "[]" "popup_init boot0" "[]"
          "\<lparr>ctrlKey = False, deltaY = 100\<rparr>"]
  show ?thesis by (simp add: m q)
qed

end
